theory Spec2Isabelle
  imports Complex_Main
begin

section \<open>Vectors, matrices and faults\<close>

text \<open>
  The smoother of \<^verbatim>\<open>meshsmoother.cpp\<close> works on \<^verbatim>\<open>Vec3d\<close> (three doubles),
  \<^verbatim>\<open>Vec3st\<close> (three indices) and \<^verbatim>\<open>Mat33d\<close>. Doubles are read as real numbers
  (exact arithmetic). Where IEEE arithmetic leaves the finite numbers, because a
  division has a zero divisor, the model says so: the operation returns
  \<open>Inl NonFinite\<close>, and the computation stops there. Rounding and overflow are
  outside the model. An \<^verbatim>\<open>assert\<close> that fails is the fault \<open>AssertionFailed\<close>, and
  a write past the end of a local array is \<open>OutOfBounds\<close>.

  Modelled from the spec: the vector and matrix header of the repository is not among
  the sources. Sums, differences, scalar multiples, dot and cross products, the
  magnitude and the normalization are the standard ones that section 4.1 names.
\<close>

type_synonym Vec3d = "real \<times> real \<times> real"
type_synonym Vec3st = "nat \<times> nat \<times> nat"
type_synonym Vec2st = "nat \<times> nat"
type_synonym Vec2i = "int \<times> int"
type_synonym Vec3c = "bool \<times> bool \<times> bool"
type_synonym Mat33d = "Vec3d \<times> Vec3d \<times> Vec3d"

datatype fault = NonFinite | AssertionFailed | OutOfBounds

definition zero3 :: Vec3d where
  "zero3 = (0, 0, 0)"

fun vadd :: "Vec3d \<Rightarrow> Vec3d \<Rightarrow> Vec3d" where
  "vadd (a0, a1, a2) (b0, b1, b2) = (a0 + b0, a1 + b1, a2 + b2)"

fun vsub :: "Vec3d \<Rightarrow> Vec3d \<Rightarrow> Vec3d" where
  "vsub (a0, a1, a2) (b0, b1, b2) = (a0 - b0, a1 - b1, a2 - b2)"

fun smul :: "real \<Rightarrow> Vec3d \<Rightarrow> Vec3d" where
  "smul k (a0, a1, a2) = (k * a0, k * a1, k * a2)"

fun dot :: "Vec3d \<Rightarrow> Vec3d \<Rightarrow> real" where
  "dot (a0, a1, a2) (b0, b1, b2) = a0 * b0 + a1 * b1 + a2 * b2"

fun cross :: "Vec3d \<Rightarrow> Vec3d \<Rightarrow> Vec3d" where
  "cross (a0, a1, a2) (b0, b1, b2) =
     (a1 * b2 - a2 * b1, a2 * b0 - a0 * b2, a0 * b1 - a1 * b0)"

definition mag :: "Vec3d \<Rightarrow> real" where
  "mag a = sqrt (dot a a)"

text \<open>\<^verbatim>\<open>a / s\<close> and \<^verbatim>\<open>a /= s\<close> on a vector: no guard in the source, so a zero
  divisor gives infinities or NaN.\<close>

definition vdiv :: "Vec3d \<Rightarrow> real \<Rightarrow> fault + Vec3d" where
  "vdiv a s = (if s = 0 then Inl NonFinite else Inr (smul (1 / s) a))"

text \<open>\<^verbatim>\<open>normalize(a)\<close> and \<^verbatim>\<open>normalized(a)\<close> of the vector header divide by the
  magnitude.\<close>

definition normalize_vec :: "Vec3d \<Rightarrow> fault + Vec3d" where
  "normalize_vec a = vdiv a (mag a)"

fun nth3 :: "'a \<times> 'a \<times> 'a \<Rightarrow> nat \<Rightarrow> 'a" where
  "nth3 (a0, a1, a2) i = (if i = 0 then a0 else if i = 1 then a1 else a2)"

definition mat_zero :: Mat33d where
  "mat_zero = (zero3, zero3, zero3)"

fun mat_add :: "Mat33d \<Rightarrow> Mat33d \<Rightarrow> Mat33d" where
  "mat_add (r0, r1, r2) (q0, q1, q2) = (vadd r0 q0, vadd r1 q1, vadd r2 q2)"

text \<open>The matrix with entry \<open>(row, col) = a[row] * w * b[col]\<close>: one step of the
  accumulation loops of the quadric and of the projection.\<close>

fun outer :: "Vec3d \<Rightarrow> real \<Rightarrow> Vec3d \<Rightarrow> Mat33d" where
  "outer (a0, a1, a2) w b = (smul (a0 * w) b, smul (a1 * w) b, smul (a2 * w) b)"

fun mat_vec :: "Mat33d \<Rightarrow> Vec3d \<Rightarrow> Vec3d" where
  "mat_vec (r0, r1, r2) x = (dot r0 x, dot r1 x, dot r2 x)"

section \<open>The surface, the mesh and the collaborators\<close>

record NonDestructiveTriMesh =
  m_tris :: "Vec3st list"
  m_edges :: "Vec2st list"
  m_vertex_to_triangle_map :: "nat list list"
  m_vertex_to_edge_map :: "nat list list"
  m_edge_to_triangle_map :: "nat list list"
  m_triangle_labels :: "Vec2i list"

record SurfTrack =
  m_mesh :: NonDestructiveTriMesh
  pm_positions :: "Vec3d list"
  pm_newpositions :: "Vec3d list"
  m_aggressive_mode :: bool
  m_collision_safety :: bool
  m_max_edge_length :: real
  m_improve_collision_epsilon :: real
  m_min_angle_cosine :: real
  m_max_angle_cosine :: real

text \<open>
  What the smoother calls and \<^verbatim>\<open>meshsmoother.cpp\<close> does not define: queries of the
  mesh and of the surface, the collision pipeline, the proximity tests, the eigensolver,
  and two configuration constants. Each is a parameter; a query that reads the surface
  takes it as its first argument, and returns real numbers (never NaN). The
  \<^verbatim>\<open>add_*_candidates\<close> functions return the candidates they append.
  \<open>uninitialised\<close> is the content of a local array before it is written.
\<close>

record externals =
  vertex_is_deleted :: "NonDestructiveTriMesh \<Rightarrow> nat \<Rightarrow> bool"
  vertex_is_solid_3 :: "SurfTrack \<Rightarrow> nat \<Rightarrow> Vec3c"
  vertex_is_all_solid :: "SurfTrack \<Rightarrow> nat \<Rightarrow> bool"
  triangle_angle_cosines :: "Vec3d \<Rightarrow> Vec3d \<Rightarrow> Vec3d \<Rightarrow> real \<times> real \<times> real"
  get_triangle_normal :: "SurfTrack \<Rightarrow> nat \<Rightarrow> Vec3d"
  get_triangle_normal_by_region :: "SurfTrack \<Rightarrow> nat \<Rightarrow> int \<Rightarrow> Vec3d"
  get_largest_dihedral :: "SurfTrack \<Rightarrow> nat \<Rightarrow> Vec3d list \<Rightarrow> real"
  edge_is_feature :: "SurfTrack \<Rightarrow> nat \<Rightarrow> Vec3d list \<Rightarrow> bool"
  eigen_solver :: "Mat33d \<Rightarrow> bool \<times> Vec3d \<times> Mat33d"
  G_EIGENVALUE_RANK_RATIO :: real
  m_sharp_fold_regularization_threshold :: real
  uninitialised :: "Vec3d \<times> Vec3d"
  add_triangle_candidates :: "SurfTrack \<Rightarrow> nat \<Rightarrow> Vec3st list"
  add_point_candidates :: "SurfTrack \<Rightarrow> nat \<Rightarrow> Vec3st list"
  add_edge_candidates :: "SurfTrack \<Rightarrow> nat \<Rightarrow> Vec3st list"
  any_collision :: "SurfTrack \<Rightarrow> Vec3st list \<Rightarrow> bool"
  check_edge_edge_proximity :: "Vec3d \<Rightarrow> Vec3d \<Rightarrow> Vec3d \<Rightarrow> Vec3d \<Rightarrow> real"
  check_point_triangle_proximity :: "Vec3d \<Rightarrow> Vec3d \<Rightarrow> Vec3d \<Rightarrow> Vec3d \<Rightarrow> real"

text \<open>The per-triangle caches of one pass.\<close>

record caches =
  triangle_areas :: "real list"
  triangle_normals :: "Vec3d list"
  triangle_centroids :: "Vec3d list"

definition get_position :: "SurfTrack \<Rightarrow> nat \<Rightarrow> Vec3d" where
  "get_position s v = pm_positions s ! v"

definition get_newposition :: "SurfTrack \<Rightarrow> nat \<Rightarrow> Vec3d" where
  "get_newposition s v = pm_newpositions s ! v"

definition set_position :: "SurfTrack \<Rightarrow> nat \<Rightarrow> Vec3d \<Rightarrow> SurfTrack" where
  "set_position s v x = s\<lparr>pm_positions := (pm_positions s)[v := x]\<rparr>"

definition set_newposition :: "SurfTrack \<Rightarrow> nat \<Rightarrow> Vec3d \<Rightarrow> SurfTrack" where
  "set_newposition s v x = s\<lparr>pm_newpositions := (pm_newpositions s)[v := x]\<rparr>"

definition get_triangle :: "SurfTrack \<Rightarrow> nat \<Rightarrow> Vec3st" where
  "get_triangle s t = m_tris (m_mesh s) ! t"

definition get_triangle_label :: "NonDestructiveTriMesh \<Rightarrow> nat \<Rightarrow> Vec2i" where
  "get_triangle_label mesh t = m_triangle_labels mesh ! t"


section \<open>Quantities of a triangle\<close>

text \<open>Modelled from the spec: \<^verbatim>\<open>get_triangle_area\<close> of the surface, which is not in
  the source file. Section 4.1 gives the standard cross-product formula: half the magnitude of
  the cross product of two edge vectors.\<close>

definition get_triangle_area :: "SurfTrack \<Rightarrow> nat \<Rightarrow> real" where
  "get_triangle_area s t =
     (case get_triangle s t of (a, b, c) \<Rightarrow>
        0.5 * mag (cross (vsub (get_position s b) (get_position s a))
                         (vsub (get_position s c) (get_position s a))))"

text \<open>Modelled from the spec: \<^verbatim>\<open>vertex_feature_edge_count\<close> of the surface, which is
  not in this file. Section 4.2: the number of incident edges classified as feature
  edges.\<close>

definition vertex_feature_edge_count :: "externals \<Rightarrow> SurfTrack \<Rightarrow> nat \<Rightarrow> Vec3d list \<Rightarrow> int" where
  "vertex_feature_edge_count ext s v normals =
     int (length (filter (\<lambda>e. edge_is_feature ext s e normals)
                         (m_vertex_to_edge_map (m_mesh s) ! v)))"

text \<open>The cache entry of triangle \<open>t\<close>: the body shared by the loop that builds the
  caches in \<^verbatim>\<open>null_space_smoothing_pass\<close> and the loop that refreshes them in
  \<^verbatim>\<open>null_space_smooth_vertex\<close>. Both test \<^verbatim>\<open>tri[0] == tri[1]\<close>.\<close>

definition cache_entry :: "externals \<Rightarrow> SurfTrack \<Rightarrow> nat \<Rightarrow> real \<times> Vec3d \<times> Vec3d" where
  "cache_entry ext s t =
     (case get_triangle s t of (a, b, c) \<Rightarrow>
        if a = b then (0, zero3, zero3)
        else (get_triangle_area s t,
              get_triangle_normal ext s t,
              smul (1 / 3) (vadd (vadd (get_position s a) (get_position s b)) (get_position s c))))"

definition build_caches :: "externals \<Rightarrow> SurfTrack \<Rightarrow> caches" where
  "build_caches ext s =
     (let entries = map (cache_entry ext s) [0 ..< length (m_tris (m_mesh s))]
      in \<lparr>triangle_areas = map fst entries,
          triangle_normals = map (\<lambda>e. fst (snd e)) entries,
          triangle_centroids = map (\<lambda>e. snd (snd e)) entries\<rparr>)"

fun refresh_caches :: "externals \<Rightarrow> SurfTrack \<Rightarrow> nat list \<Rightarrow> caches \<Rightarrow> caches" where
  "refresh_caches ext s [] c = c"
| "refresh_caches ext s (t # rest) c =
     (case cache_entry ext s t of (area, normal, centroid) \<Rightarrow>
        refresh_caches ext s rest
          \<lparr>triangle_areas = (triangle_areas c)[t := area],
           triangle_normals = (triangle_normals c)[t := normal],
           triangle_centroids = (triangle_centroids c)[t := centroid]\<rparr>)"

section \<open>The displacement synthesizers\<close>

text \<open>The loop that all three synthesizers run: the area-weighted sum of the offsets
  from the vertex to the cached centroids, and the sum of the cached areas.\<close>

fun centroid_offset_sum :: "SurfTrack \<Rightarrow> nat \<Rightarrow> caches \<Rightarrow> nat list \<Rightarrow> Vec3d \<times> real \<Rightarrow> Vec3d \<times> real" where
  "centroid_offset_sum s v c [] (t, sum_areas) = (t, sum_areas)"
| "centroid_offset_sum s v c (i # rest) (t, sum_areas) =
     (let area = triangle_areas c ! i;
          off = vsub (triangle_centroids c ! i) (get_position s v)
      in centroid_offset_sum s v c rest (vadd t (smul area off), sum_areas + area))"

definition get_smoothing_displacement_naive :: "SurfTrack \<Rightarrow> nat \<Rightarrow> nat list \<Rightarrow> caches \<Rightarrow> fault + Vec3d" where
  "get_smoothing_displacement_naive s v triangles c =
     (case centroid_offset_sum s v c triangles (zero3, 0) of
        (t, sum_areas) \<Rightarrow> vdiv t sum_areas)"

text \<open>The quadric \<open>A = \<Sum> N[i] W[i] N[i]\<^sup>T\<close> over the triangle set.\<close>

definition quadric :: "caches \<Rightarrow> nat list \<Rightarrow> Mat33d" where
  "quadric c triangles =
     foldl (\<lambda>A i. mat_add A (outer (triangle_normals c ! i) (triangle_areas c ! i) (triangle_normals c ! i)))
       mat_zero triangles"

definition null_space_projection :: "Vec3d list \<Rightarrow> Mat33d" where
  "null_space_projection T = foldl (\<lambda>P t. mat_add P (outer t 1 t)) mat_zero T"

text \<open>The classic null-space approach. The eigensolver returns its status, the three
  eigenvalues and the three eigenvector columns; this function does not read the
  status.\<close>

definition get_smoothing_displacement :: "externals \<Rightarrow> SurfTrack \<Rightarrow> nat \<Rightarrow> nat list \<Rightarrow> caches \<Rightarrow> fault + Vec3d" where
  "get_smoothing_displacement ext s v triangles c =
     (case eigen_solver ext (quadric c triangles) of (ok, eigenvalues, eigenvectors) \<Rightarrow>
        let max_eig = max (nth3 eigenvalues 0) (max (nth3 eigenvalues 1) (nth3 eigenvalues 2));
            T2 = map (nth3 eigenvectors)
                   (filter (\<lambda>i. nth3 eigenvalues i < G_EIGENVALUE_RANK_RATIO ext * max_eig) [0, 1, 2])
        in case centroid_offset_sum s v c triangles (zero3, 0) of
             (t, sum_areas) \<Rightarrow> vdiv (mat_vec (null_space_projection T2) t) sum_areas)"

text \<open>\<^verbatim>\<open>Jiao_b\<close> and \<^verbatim>\<open>Jiao_d\<close> of the flat branch.\<close>

definition jiao_b :: "caches \<Rightarrow> nat list \<Rightarrow> Vec3d" where
  "jiao_b c triangles =
     foldl (\<lambda>b i. vadd b (smul (triangle_areas c ! i) (triangle_normals c ! i))) zero3 triangles"

fun jiao_d :: "real \<Rightarrow> Vec3d \<Rightarrow> Vec3d \<Rightarrow> Mat33d \<Rightarrow> nat list \<Rightarrow> Vec3d \<Rightarrow> fault + Vec3d" where
  "jiao_d thr b eigenvalues eigenvectors [] d = Inr d"
| "jiao_d thr b eigenvalues eigenvectors (i # rest) d =
     (if nth3 eigenvalues i > thr then
        (case vdiv (smul (dot b (nth3 eigenvectors i)) (nth3 eigenvectors i)) (nth3 eigenvalues i) of
           Inl f \<Rightarrow> Inl f
         | Inr q \<Rightarrow> jiao_d thr b eigenvalues eigenvectors rest (vadd d q))
      else jiao_d thr b eigenvalues eigenvectors rest d)"

definition jiao_normal :: "externals \<Rightarrow> caches \<Rightarrow> nat list \<Rightarrow> Vec3d \<Rightarrow> Mat33d \<Rightarrow> real \<Rightarrow> fault + Vec3d" where
  "jiao_normal ext c triangles eigenvalues eigenvectors eig_max =
     (case jiao_d (G_EIGENVALUE_RANK_RATIO ext * eig_max) (jiao_b c triangles)
             eigenvalues eigenvectors [0, 1, 2] zero3 of
        Inl f \<Rightarrow> Inl f
      | Inr d \<Rightarrow> normalize_vec d)"

definition flat_displacement :: "externals \<Rightarrow> SurfTrack \<Rightarrow> nat \<Rightarrow> nat list \<Rightarrow> caches \<Rightarrow> Vec3d \<Rightarrow> Mat33d \<Rightarrow> real \<Rightarrow> fault + Vec3d" where
  "flat_displacement ext s v triangles c eigenvalues eigenvectors eig_max =
     (case jiao_normal ext c triangles eigenvalues eigenvectors eig_max of
        Inl f \<Rightarrow> Inl f
      | Inr normal \<Rightarrow>
          (case centroid_offset_sum s v c triangles (zero3, 0) of
             (t, sum_areas) \<Rightarrow>
               (case vdiv t sum_areas of
                  Inl f \<Rightarrow> Inl f
                | Inr t' \<Rightarrow> Inr (vsub t' (smul (dot normal t') normal)))))"

text \<open>The two quotient tests of the ridge branch,
  \<^verbatim>\<open>eig_min / eig_mid <= 0.7 && eig_mid / eig_max >= 0.00765\<close>, as a double
  division decides them: with a zero divisor the quotient is an infinity of the sign
  of the dividend, or NaN when the dividend is zero too, and every comparison with
  NaN is false.\<close>

definition quot_le :: "real \<Rightarrow> real \<Rightarrow> real \<Rightarrow> bool" where
  "quot_le a b c = (if b = 0 then a < 0 else a / b \<le> c)"

definition quot_ge :: "real \<Rightarrow> real \<Rightarrow> real \<Rightarrow> bool" where
  "quot_ge a b c = (if b = 0 then a > 0 else a / b \<ge> c)"

definition well_conditioned :: "real \<Rightarrow> real \<Rightarrow> real \<Rightarrow> bool" where
  "well_conditioned eig_min eig_mid eig_max =
     (quot_le eig_min eig_mid 0.7 \<and> quot_ge eig_mid eig_max 0.00765)"

fun collect :: "('a \<Rightarrow> fault + 'b) \<Rightarrow> 'a list \<Rightarrow> fault + 'b list" where
  "collect f [] = Inr []"
| "collect f (x # xs) =
     (case f x of
        Inl e \<Rightarrow> Inl e
      | Inr y \<Rightarrow> (case collect f xs of Inl e \<Rightarrow> Inl e | Inr ys \<Rightarrow> Inr (y # ys)))"

definition feature_edges :: "externals \<Rightarrow> SurfTrack \<Rightarrow> nat \<Rightarrow> Vec3d list \<Rightarrow> nat list" where
  "feature_edges ext s v normals =
     filter (\<lambda>edge. edge_is_feature ext s edge normals) (m_vertex_to_edge_map (m_mesh s) ! v)"

definition edge_vector :: "SurfTrack \<Rightarrow> nat \<Rightarrow> Vec3d" where
  "edge_vector s edge =
     vsub (get_position s (fst (m_edges (m_mesh s) ! edge)))
          (get_position s (snd (m_edges (m_mesh s) ! edge)))"

definition edge_midpoint :: "SurfTrack \<Rightarrow> nat \<Rightarrow> Vec3d" where
  "edge_midpoint s edge =
     smul 0.5 (vadd (get_position s (fst (m_edges (m_mesh s) ! edge)))
                    (get_position s (snd (m_edges (m_mesh s) ! edge))))"

text \<open>The basis \<open>T\<close> of the ridge branch: one direction.\<close>

definition ridge_basis :: "externals \<Rightarrow> SurfTrack \<Rightarrow> nat \<Rightarrow> Vec3d list \<Rightarrow> int \<Rightarrow> real \<Rightarrow> real \<Rightarrow> real \<Rightarrow> Vec3d \<Rightarrow> fault + Vec3d list" where
  "ridge_basis ext s v normals feature_edge_count eig_min eig_mid eig_max eig_min_vec =
     (if well_conditioned eig_min eig_mid eig_max then Inr [eig_min_vec]
      else if feature_edge_count = 1 then
        collect (\<lambda>edge. normalize_vec (edge_vector s edge)) (feature_edges ext s v normals)
      else if feature_edge_count = 2 then
        (let edge_midpoints = map (edge_midpoint s) (feature_edges ext s v normals)
         in case normalize_vec (vsub (edge_midpoints ! 0) (edge_midpoints ! 1)) of
              Inl f \<Rightarrow> Inl f
            | Inr result \<Rightarrow> Inr [result])
      else Inl AssertionFailed)"

definition ridge_displacement :: "externals \<Rightarrow> SurfTrack \<Rightarrow> nat \<Rightarrow> nat list \<Rightarrow> caches \<Rightarrow> int \<Rightarrow> real \<Rightarrow> real \<Rightarrow> real \<Rightarrow> Vec3d \<Rightarrow> fault + Vec3d" where
  "ridge_displacement ext s v triangles c feature_edge_count eig_min eig_mid eig_max eig_min_vec =
     (case ridge_basis ext s v (triangle_normals c) feature_edge_count eig_min eig_mid eig_max eig_min_vec of
        Inl f \<Rightarrow> Inl f
      | Inr T \<Rightarrow>
          (case centroid_offset_sum s v c triangles (zero3, 0) of
             (t, sum_areas) \<Rightarrow> vdiv (mat_vec (null_space_projection T) t) sum_areas))"

text \<open>The largest, smallest and middle eigenvalue as the source computes them with
  \<^verbatim>\<open>std::max\<close> and \<^verbatim>\<open>std::min\<close>, and the column that goes with the smallest.\<close>

definition eig_max_of :: "Vec3d \<Rightarrow> real" where
  "eig_max_of eigenvalues =
     max (nth3 eigenvalues 0) (max (nth3 eigenvalues 1) (nth3 eigenvalues 2))"

definition eig_min_of :: "Vec3d \<Rightarrow> real" where
  "eig_min_of eigenvalues =
     min (nth3 eigenvalues 0) (min (nth3 eigenvalues 1) (nth3 eigenvalues 2))"

definition eig_mid_of :: "Vec3d \<Rightarrow> real" where
  "eig_mid_of eigenvalues =
     max (min (nth3 eigenvalues 0) (nth3 eigenvalues 1))
         (min (max (nth3 eigenvalues 0) (nth3 eigenvalues 1)) (nth3 eigenvalues 2))"

definition eig_min_vec_of :: "Vec3d \<Rightarrow> Mat33d \<Rightarrow> Vec3d" where
  "eig_min_vec_of eigenvalues eigenvectors =
     (if eig_min_of eigenvalues = nth3 eigenvalues 0 then nth3 eigenvectors 0
      else if eig_min_of eigenvalues = nth3 eigenvalues 1 then nth3 eigenvectors 1
      else nth3 eigenvectors 2)"

text \<open>Using the dihedral angle to decide features. A failed eigendecomposition
  runs into \<^verbatim>\<open>assert(0)\<close>.\<close>

definition get_smoothing_displacement_dihedral :: "externals \<Rightarrow> SurfTrack \<Rightarrow> nat \<Rightarrow> nat list \<Rightarrow> caches \<Rightarrow> fault + Vec3d" where
  "get_smoothing_displacement_dihedral ext s v triangles c =
     (let feature_edge_count = vertex_feature_edge_count ext s v (triangle_normals c) in
      if feature_edge_count \<ge> 3 then Inr zero3
      else
        (case eigen_solver ext (quadric c triangles) of (ok, eigenvalues, eigenvectors) \<Rightarrow>
           if \<not> ok then Inl AssertionFailed
           else
             let eig_max = eig_max_of eigenvalues;
                 eig_min = eig_min_of eigenvalues;
                 eig_mid = eig_mid_of eigenvalues;
                 eig_min_vec = eig_min_vec_of eigenvalues eigenvectors
             in if feature_edge_count = 0
                then flat_displacement ext s v triangles c eigenvalues eigenvectors eig_max
                else ridge_displacement ext s v triangles c feature_edge_count
                       eig_min eig_mid eig_max eig_min_vec))"


section \<open>Folded features\<close>

definition regularize_folded_feature :: "externals \<Rightarrow> SurfTrack \<Rightarrow> nat \<Rightarrow> Vec3d list \<Rightarrow> bool" where
  "regularize_folded_feature ext s v normals =
     list_ex (\<lambda>edge_id. pi - get_largest_dihedral ext s edge_id normals
                          < m_sharp_fold_regularization_threshold ext)
       (m_vertex_to_edge_map (m_mesh s) ! v)"

text \<open>The \<^verbatim>\<open>std::set<int>\<close> of the region labels around the vertex, in the order
  in which the set is iterated.\<close>

definition incident_regions :: "NonDestructiveTriMesh \<Rightarrow> nat \<Rightarrow> int list" where
  "incident_regions mesh v =
     sort (remdups (concat (map (\<lambda>tri. [fst (get_triangle_label mesh tri), snd (get_triangle_label mesh tri)])
                                (m_vertex_to_triangle_map mesh ! v))))"

text \<open>The loop that fills \<^verbatim>\<open>normal_pair[2]\<close> from the triangles of an edge that bound
  the region. The array starts uninitialised; a third write is past its end.\<close>

fun fill_normal_pair :: "externals \<Rightarrow> SurfTrack \<Rightarrow> int \<Rightarrow> nat list \<Rightarrow> (Vec3d \<times> Vec3d) \<times> nat \<Rightarrow> fault + (Vec3d \<times> Vec3d)" where
  "fill_normal_pair ext s region [] (normal_pair, next_tri_ind) = Inr normal_pair"
| "fill_normal_pair ext s region (tri # rest) (normal_pair, next_tri_ind) =
     (let label = get_triangle_label (m_mesh s) tri in
      if fst label \<noteq> region \<and> snd label \<noteq> region
      then fill_normal_pair ext s region rest (normal_pair, next_tri_ind)
      else
        let normal = get_triangle_normal_by_region ext s tri region in
        if next_tri_ind = 0
        then fill_normal_pair ext s region rest ((normal, snd normal_pair), 1)
        else if next_tri_ind = 1
        then fill_normal_pair ext s region rest ((fst normal_pair, normal), 2)
        else Inl OutOfBounds)"

text \<open>\<^verbatim>\<open>acos\<close> of a double: NaN outside \<open>[-1, 1]\<close>, written \<open>None\<close>.\<close>

definition acos_double :: "real \<Rightarrow> real option" where
  "acos_double x = (if - 1 \<le> x \<and> x \<le> 1 then Some (arccos x) else None)"

fun sharpest_over_regions :: "externals \<Rightarrow> SurfTrack \<Rightarrow> nat \<Rightarrow> int list \<Rightarrow> int \<times> real \<Rightarrow> fault + (int \<times> real)" where
  "sharpest_over_regions ext s edge [] (sharpest_region, sharp_angle) = Inr (sharpest_region, sharp_angle)"
| "sharpest_over_regions ext s edge (region # rest) (sharpest_region, sharp_angle) =
     (case fill_normal_pair ext s region (m_edge_to_triangle_map (m_mesh s) ! edge) (uninitialised ext, 0) of
        Inl f \<Rightarrow> Inl f
      | Inr normal_pair \<Rightarrow>
          (case acos_double (dot (fst normal_pair) (snd normal_pair)) of
             None \<Rightarrow> sharpest_over_regions ext s edge rest (sharpest_region, sharp_angle)
           | Some dihedral_angle \<Rightarrow>
               if dihedral_angle > sharp_angle
               then sharpest_over_regions ext s edge rest (region, dihedral_angle)
               else sharpest_over_regions ext s edge rest (sharpest_region, sharp_angle)))"

fun sharpest_over_edges :: "externals \<Rightarrow> SurfTrack \<Rightarrow> int list \<Rightarrow> nat list \<Rightarrow> int \<times> real \<Rightarrow> fault + (int \<times> real)" where
  "sharpest_over_edges ext s regions [] acc = Inr acc"
| "sharpest_over_edges ext s regions (edge # rest) acc =
     (if length (m_edge_to_triangle_map (m_mesh s) ! edge) > 3
      then sharpest_over_edges ext s regions rest acc
      else
        (case sharpest_over_regions ext s edge regions acc of
           Inl f \<Rightarrow> Inl f
         | Inr acc' \<Rightarrow> sharpest_over_edges ext s regions rest acc'))"

text \<open>The non-aggressive policy: lines 278 to 364 of the source.\<close>

definition feature_policy :: "externals \<Rightarrow> SurfTrack \<Rightarrow> nat \<Rightarrow> nat list \<Rightarrow> caches \<Rightarrow> fault + Vec3d" where
  "feature_policy ext s v incident_triangles c =
     (if regularize_folded_feature ext s v (triangle_normals c) then
        (case sharpest_over_edges ext s (incident_regions (m_mesh s) v)
                (m_vertex_to_edge_map (m_mesh s) ! v) (- 1, 0) of
           Inl f \<Rightarrow> Inl f
         | Inr (sharpest_region, sharp_angle) \<Rightarrow>
             if sharpest_region \<noteq> - 1 \<and> pi - sharp_angle < m_sharp_fold_regularization_threshold ext
             then
               (let tri_set = filter (\<lambda>t. fst (get_triangle_label (m_mesh s) t) = sharpest_region
                                          \<or> snd (get_triangle_label (m_mesh s) t) = sharpest_region)
                                incident_triangles
                in if tri_set = [] then Inl AssertionFailed
                   else get_smoothing_displacement ext s v tri_set c)
             else get_smoothing_displacement_dihedral ext s v incident_triangles c)
      else get_smoothing_displacement_dihedral ext s v incident_triangles c)"

section \<open>The collision guard\<close>

definition gather_candidates :: "externals \<Rightarrow> SurfTrack \<Rightarrow> nat \<Rightarrow> Vec3st list" where
  "gather_candidates ext s vertex =
     concat (map (add_triangle_candidates ext s) (m_vertex_to_triangle_map (m_mesh s) ! vertex))
     @ add_point_candidates ext s vertex
     @ concat (map (add_edge_candidates ext s) (m_vertex_to_edge_map (m_mesh s) ! vertex))"

text \<open>The distance that the static proximity test returns for a candidate: edge against
  edge when the third entry is 1, point against triangle otherwise, both on the staged
  positions.\<close>

definition static_proximity_distance :: "externals \<Rightarrow> SurfTrack \<Rightarrow> Vec3st \<Rightarrow> real" where
  "static_proximity_distance ext s candidate =
     (case candidate of (c0, c1, c2) \<Rightarrow>
        if c2 = 1 then
          (let e0 = m_edges (m_mesh s) ! c0; e1 = m_edges (m_mesh s) ! c1
           in check_edge_edge_proximity ext
                (get_newposition s (fst e0)) (get_newposition s (snd e0))
                (get_newposition s (fst e1)) (get_newposition s (snd e1)))
        else
          (case get_triangle s c0 of (t0, t1, t2) \<Rightarrow>
             check_point_triangle_proximity ext
               (get_newposition s c1) (get_newposition s t0)
               (get_newposition s t1) (get_newposition s t2)))"

text \<open>Whether the proximity loop measures a candidate at all: it skips degenerate
  edges and triangles, and pairs that share a vertex.\<close>

definition proximity_is_measured :: "SurfTrack \<Rightarrow> Vec3st \<Rightarrow> bool" where
  "proximity_is_measured s candidate =
     (case candidate of (c0, c1, c2) \<Rightarrow>
        if c2 = 1 then
          (let e0 = m_edges (m_mesh s) ! c0; e1 = m_edges (m_mesh s) ! c1
           in if fst e0 = snd e0 then False
              else if fst e1 = snd e1 then False
              else fst e0 \<noteq> fst e1 \<and> fst e0 \<noteq> snd e1 \<and> snd e0 \<noteq> fst e1 \<and> snd e0 \<noteq> snd e1)
        else
          (case get_triangle s c0 of (t0, t1, t2) \<Rightarrow>
             if t0 = t1 then False
             else t0 \<noteq> c1 \<and> t1 \<noteq> c1 \<and> t2 \<noteq> c1))"

fun proximity_loop :: "externals \<Rightarrow> SurfTrack \<Rightarrow> Vec3st list \<Rightarrow> bool" where
  "proximity_loop ext s [] = False"
| "proximity_loop ext s (candidate # rest) =
     (if proximity_is_measured s candidate
         \<and> static_proximity_distance ext s candidate < m_improve_collision_epsilon s
      then True
      else proximity_loop ext s rest)"

definition smooth_vertex_pseudo_motion_introduces_collision :: "externals \<Rightarrow> SurfTrack \<Rightarrow> nat \<Rightarrow> bool" where
  "smooth_vertex_pseudo_motion_introduces_collision ext s vertex =
     (let collision_candidates = gather_candidates ext s vertex
      in if any_collision ext s collision_candidates then True
         else proximity_loop ext s collision_candidates)"

section \<open>Smoothing one vertex\<close>

definition min_cos :: real where
  "min_cos = cos (160 * pi / 180)"

definition max_cos :: real where
  "max_cos = cos (20 * pi / 180)"

definition any_bad_angles_cos :: "real \<Rightarrow> real \<Rightarrow> real \<times> real \<times> real \<Rightarrow> bool" where
  "any_bad_angles_cos lo hi cos_angles =
     (case cos_angles of (c0, c1, c2) \<Rightarrow>
        c0 < lo \<or> c0 > hi \<or> c1 < lo \<or> c1 > hi \<or> c2 < lo \<or> c2 > hi)"

definition triangle_cosines :: "externals \<Rightarrow> SurfTrack \<Rightarrow> nat \<Rightarrow> real \<times> real \<times> real" where
  "triangle_cosines ext s i =
     (case m_tris (m_mesh s) ! i of (a, b, c) \<Rightarrow>
        triangle_angle_cosines ext (get_position s a) (get_position s b) (get_position s c))"

fun worth_smoothing :: "externals \<Rightarrow> SurfTrack \<Rightarrow> nat list \<Rightarrow> bool" where
  "worth_smoothing ext s [] = False"
| "worth_smoothing ext s (i # rest) =
     (if any_bad_angles_cos min_cos max_cos (triangle_cosines ext s i) then True
      else worth_smoothing ext s rest)"

fun has_boundary_edge :: "NonDestructiveTriMesh \<Rightarrow> nat list \<Rightarrow> bool" where
  "has_boundary_edge mesh [] = False"
| "has_boundary_edge mesh (e # rest) =
     (if length (m_edge_to_triangle_map mesh ! e) = 1 then True
      else has_boundary_edge mesh rest)"

text \<open>The solidity mask as the source writes it: 0, 1 and 2.\<close>

definition solid_mask :: "Vec3c \<Rightarrow> Vec3d \<Rightarrow> Vec3d" where
  "solid_mask solid displacement =
     (case solid of (s0, s1, s2) \<Rightarrow>
        case displacement of (d0, d1, d2) \<Rightarrow>
          (if s0 then 0 else d0, if s1 then 1 else d1, if s2 then 2 else d2))"

text \<open>The displacement that policy selection and the mask produce (lines 272 to 371).\<close>

definition masked_displacement :: "externals \<Rightarrow> SurfTrack \<Rightarrow> nat \<Rightarrow> caches \<Rightarrow> fault + Vec3d" where
  "masked_displacement ext s v c =
     (let incident_triangles = m_vertex_to_triangle_map (m_mesh s) ! v in
      case (if m_aggressive_mode s
            then get_smoothing_displacement_naive s v incident_triangles c
            else feature_policy ext s v incident_triangles c) of
        Inl f \<Rightarrow> Inl f
      | Inr displacement \<Rightarrow> Inr (solid_mask (vertex_is_solid_3 ext s v) displacement))"

text \<open>The capped displacement is staged, checked and committed (lines 373 to 421).\<close>

definition stage_and_commit :: "externals \<Rightarrow> SurfTrack \<Rightarrow> nat \<Rightarrow> caches \<Rightarrow> Vec3d \<Rightarrow> SurfTrack \<times> caches \<times> Vec3d" where
  "stage_and_commit ext s v c displacement =
     (if mag displacement > 2 * m_max_edge_length s then (s, c, zero3)
      else
        let newpos = vadd (get_position s v) displacement;
            s1 = set_newposition s v newpos
        in if m_collision_safety s1 \<and> smooth_vertex_pseudo_motion_introduces_collision ext s1 v
           then (set_newposition s1 v (get_position s1 v), c, zero3)
           else
             let s2 = set_position s1 v newpos
             in (s2, refresh_caches ext s2 (m_vertex_to_triangle_map (m_mesh s2) ! v) c, displacement))"

text \<open>\<^verbatim>\<open>null_space_smooth_vertex\<close>. The surface, the caches and the displacement are
  passed by reference in the source; the model returns them.\<close>

definition null_space_smooth_vertex :: "externals \<Rightarrow> SurfTrack \<Rightarrow> nat \<Rightarrow> caches \<Rightarrow> Vec3d \<Rightarrow> fault + (SurfTrack \<times> caches \<times> Vec3d)" where
  "null_space_smooth_vertex ext s v c displacement =
     (let mesh = m_mesh s in
      if vertex_is_deleted ext mesh v then Inr (s, c, displacement)
      else if m_vertex_to_triangle_map mesh ! v = [] then Inr (s, c, zero3)
      else if has_boundary_edge mesh (m_vertex_to_edge_map mesh ! v) then Inr (s, c, zero3)
      else if \<not> worth_smoothing ext s (m_vertex_to_triangle_map mesh ! v) then Inr (s, c, zero3)
      else
        (case masked_displacement ext s v c of
           Inl f \<Rightarrow> Inl f
         | Inr d \<Rightarrow> Inr (stage_and_commit ext s v c d)))"


section \<open>One smoothing pass\<close>

text \<open>Standard mode: every vertex that is not fully constrained, once, in index order.
  The state of the loop is the surface, the caches, the displacements and the largest
  displacement seen.\<close>

fun standard_sweep :: "externals \<Rightarrow> nat list \<Rightarrow> SurfTrack \<times> caches \<times> Vec3d list \<times> real \<Rightarrow> fault + (SurfTrack \<times> caches \<times> Vec3d list \<times> real)" where
  "standard_sweep ext [] st = Inr st"
| "standard_sweep ext (i # rest) (s, c, displacements, max_displacement) =
     (if \<not> vertex_is_all_solid ext s i then
        (case null_space_smooth_vertex ext s i c (displacements ! i) of
           Inl f \<Rightarrow> Inl f
         | Inr (s', c', d) \<Rightarrow>
             standard_sweep ext rest (s', c', displacements[i := d], max max_displacement (mag d)))
      else standard_sweep ext rest (s, c, displacements, max_displacement))"

text \<open>Aggressive mode: the vertices of every triangle with a bad angle, each vertex at
  most once.\<close>

fun smooth_triangle_vertices :: "externals \<Rightarrow> nat list \<Rightarrow> SurfTrack \<times> caches \<times> Vec3d list \<times> real \<times> bool list \<Rightarrow> fault + (SurfTrack \<times> caches \<times> Vec3d list \<times> real \<times> bool list)" where
  "smooth_triangle_vertices ext [] st = Inr st"
| "smooth_triangle_vertices ext (v # rest) (s, c, displacements, max_displacement, smoothed_already) =
     (if \<not> vertex_is_all_solid ext s v \<and> \<not> smoothed_already ! v then
        (case null_space_smooth_vertex ext s v c (displacements ! v) of
           Inl f \<Rightarrow> Inl f
         | Inr (s', c', d) \<Rightarrow>
             smooth_triangle_vertices ext rest
               (s', c', displacements[v := d], max max_displacement (mag d), smoothed_already[v := True]))
      else smooth_triangle_vertices ext rest (s, c, displacements, max_displacement, smoothed_already))"

fun aggressive_sweep :: "externals \<Rightarrow> nat list \<Rightarrow> SurfTrack \<times> caches \<times> Vec3d list \<times> real \<times> bool list \<Rightarrow> fault + (SurfTrack \<times> caches \<times> Vec3d list \<times> real \<times> bool list)" where
  "aggressive_sweep ext [] st = Inr st"
| "aggressive_sweep ext (i # rest) (s, c, displacements, max_displacement, smoothed_already) =
     (case m_tris (m_mesh s) ! i of (a, b, cc) \<Rightarrow>
        if any_bad_angles_cos (m_min_angle_cosine s) (m_max_angle_cosine s) (triangle_cosines ext s i)
        then
          (case smooth_triangle_vertices ext [a, b, cc]
                  (s, c, displacements, max_displacement, smoothed_already) of
             Inl f \<Rightarrow> Inl f
           | Inr st' \<Rightarrow> aggressive_sweep ext rest st')
        else aggressive_sweep ext rest (s, c, displacements, max_displacement, smoothed_already))"

text \<open>\<^verbatim>\<open>null_space_smoothing_pass\<close>: the surface after the pass and the returned flag.
  The notification of the mesh event callback changes nothing that is modelled.\<close>

definition null_space_smoothing_pass :: "externals \<Rightarrow> SurfTrack \<Rightarrow> real \<Rightarrow> fault + (SurfTrack \<times> bool)" where
  "null_space_smoothing_pass ext s dt =
     (let c = build_caches ext s;
          displacements = replicate (length (pm_positions s)) zero3;
          max_displacement = 1 / 10 ^ 30
      in if \<not> m_aggressive_mode s then
           (case standard_sweep ext [0 ..< length (pm_positions s)]
                   (s, c, displacements, max_displacement) of
              Inl f \<Rightarrow> Inl f
            | Inr (s', rest) \<Rightarrow> Inr (s', True))
         else
           (case aggressive_sweep ext [0 ..< length (m_tris (m_mesh s))]
                   (s, c, displacements, max_displacement,
                    replicate (length (pm_positions s)) False) of
              Inl f \<Rightarrow> Inl f
            | Inr (s', rest) \<Rightarrow> Inr (s', True)))"


section \<open>Notions used in the statements\<close>

text \<open>The vertex passes the four eligibility checks of \<^verbatim>\<open>null_space_smooth_vertex\<close>:
  it is not deleted, it has incident triangles, none of its edges is a boundary edge,
  and one of its triangles has a bad angle cosine.\<close>

definition reaches_synthesizer :: "externals \<Rightarrow> SurfTrack \<Rightarrow> nat \<Rightarrow> bool" where
  "reaches_synthesizer ext s v =
     (\<not> vertex_is_deleted ext (m_mesh s) v
      \<and> m_vertex_to_triangle_map (m_mesh s) ! v \<noteq> []
      \<and> \<not> (\<exists>e \<in> set (m_vertex_to_edge_map (m_mesh s) ! v).
              length (m_edge_to_triangle_map (m_mesh s) ! e) = 1)
      \<and> (\<exists>i \<in> set (m_vertex_to_triangle_map (m_mesh s) ! v).
            any_bad_angles_cos min_cos max_cos (triangle_cosines ext s i)))"

text \<open>The surface with the displacement staged for the vertex.\<close>

definition staged :: "SurfTrack \<Rightarrow> nat \<Rightarrow> Vec3d \<Rightarrow> SurfTrack" where
  "staged s v d = set_newposition s v (vadd (get_position s v) d)"

text \<open>The surface with the displacement staged and committed for the vertex.\<close>

definition committed :: "SurfTrack \<Rightarrow> nat \<Rightarrow> Vec3d \<Rightarrow> SurfTrack" where
  "committed s v d = set_position (staged s v d) v (vadd (get_position s v) d)"

text \<open>A triangle with a repeated vertex index, and the narrower test of the source.\<close>

definition has_repeated_index :: "Vec3st \<Rightarrow> bool" where
  "has_repeated_index tri = (case tri of (a, b, c) \<Rightarrow> a = b \<or> b = c \<or> a = c)"

definition first_two_equal :: "Vec3st \<Rightarrow> bool" where
  "first_two_equal tri = (case tri of (a, b, c) \<Rightarrow> a = b)"

text \<open>Every index stored in the mesh is in range, and no triangle of the mesh has a
  bad angle cosine.\<close>

definition indices_in_range :: "SurfTrack \<Rightarrow> bool" where
  "indices_in_range s =
     (length (m_vertex_to_triangle_map (m_mesh s)) = length (pm_positions s)
      \<and> (\<forall>ts \<in> set (m_vertex_to_triangle_map (m_mesh s)).
            \<forall>t \<in> set ts. t < length (m_tris (m_mesh s)))
      \<and> (\<forall>tri \<in> set (m_tris (m_mesh s)).
            case tri of (a, b, c) \<Rightarrow>
              a < length (pm_positions s) \<and> b < length (pm_positions s) \<and> c < length (pm_positions s)))"

definition every_angle_fine :: "externals \<Rightarrow> SurfTrack \<Rightarrow> bool" where
  "every_angle_fine ext s =
     (\<forall>i < length (m_tris (m_mesh s)).
        \<not> any_bad_angles_cos min_cos max_cos (triangle_cosines ext s i))"

text \<open>The normalized combined normal of the flat branch, from what the eigensolver
  returns for the quadric of the triangle set.\<close>

definition combined_normal :: "externals \<Rightarrow> caches \<Rightarrow> nat list \<Rightarrow> fault + Vec3d" where
  "combined_normal ext c triangles =
     (case eigen_solver ext (quadric c triangles) of (ok, eigenvalues, eigenvectors) \<Rightarrow>
        jiao_normal ext c triangles eigenvalues eigenvectors (eig_max_of eigenvalues))"

definition sum_of_areas :: "caches \<Rightarrow> nat list \<Rightarrow> real" where
  "sum_of_areas c triangles = (\<Sum>i \<leftarrow> triangles. triangle_areas c ! i)"



section \<open>Concrete surfaces\<close>

text \<open>Modelled from the spec: \<^verbatim>\<open>triangle_angle_cosines\<close> of the triangle quality
  header, which is not in this file. Section 4.1: the cosine of each interior angle, by
  dot products of normalized edge vectors. The surfaces below have no edge of length
  zero, so no quotient here has a zero divisor.\<close>

definition unit_vec :: "Vec3d \<Rightarrow> Vec3d" where
  "unit_vec a = smul (1 / mag a) a"

definition dot_angle_cosines :: "Vec3d \<Rightarrow> Vec3d \<Rightarrow> Vec3d \<Rightarrow> real \<times> real \<times> real" where
  "dot_angle_cosines a b c =
     (dot (unit_vec (vsub b a)) (unit_vec (vsub c a)),
      dot (unit_vec (vsub a b)) (unit_vec (vsub c b)),
      dot (unit_vec (vsub a c)) (unit_vec (vsub b c)))"

text \<open>Modelled from the spec: \<^verbatim>\<open>get_triangle_normal\<close> of the surface, which is not
  in this file. Section 4.1: the unit normal, oriented by the winding.\<close>

definition unit_normal :: "SurfTrack \<Rightarrow> nat \<Rightarrow> Vec3d" where
  "unit_normal s t =
     (case get_triangle s t of (a, b, c) \<Rightarrow>
        unit_vec (cross (vsub (get_position s b) (get_position s a))
                        (vsub (get_position s c) (get_position s a))))"

text \<open>Stand-ins for the two proximity tests, exact where the theorems read them:
  segments that share an end point, and a point that is a corner of the triangle, are
  at distance 0. Elsewhere they return the distance of the first two points.\<close>

definition shared_endpoint_distance :: "Vec3d \<Rightarrow> Vec3d \<Rightarrow> Vec3d \<Rightarrow> Vec3d \<Rightarrow> real" where
  "shared_endpoint_distance a b c d =
     (if a = c \<or> a = d \<or> b = c \<or> b = d then 0 else mag (vsub a c))"

definition corner_point_distance :: "Vec3d \<Rightarrow> Vec3d \<Rightarrow> Vec3d \<Rightarrow> Vec3d \<Rightarrow> real" where
  "corner_point_distance p a b c =
     (if p = a \<or> p = b \<or> p = c then 0 else mag (vsub p a))"

text \<open>An eigensolver for the quadrics of the flat examples: on a diagonal matrix with
  ascending diagonal it reports success, the diagonal and the unit vectors.\<close>

definition diagonal_eigen :: "Mat33d \<Rightarrow> bool \<times> Vec3d \<times> Mat33d" where
  "diagonal_eigen A =
     (case A of ((a00, a01, a02), (a10, a11, a12), (a20, a21, a22)) \<Rightarrow>
        (a01 = 0 \<and> a02 = 0 \<and> a10 = 0 \<and> a12 = 0 \<and> a20 = 0 \<and> a21 = 0
           \<and> a00 \<le> a11 \<and> a11 \<le> a22,
         (a00, a11, a22),
         ((1, 0, 0), (0, 1, 0), (0, 0, 1))))"


text \<open>Collaborators of a smooth surface without constraints: no vertex is solid, no
  edge is a feature, every dihedral angle is 0, the broad phase returns for an edge the
  edges around its first end point (their boxes touch its box), and the continuous
  test finds no collision.\<close>

definition plain_ext :: externals where
  "plain_ext =
     \<lparr>vertex_is_deleted = (\<lambda>mesh v. m_vertex_to_edge_map mesh ! v = []),
      vertex_is_solid_3 = (\<lambda>s v. (False, False, False)),
      vertex_is_all_solid = (\<lambda>s v. False),
      triangle_angle_cosines = dot_angle_cosines,
      get_triangle_normal = unit_normal,
      get_triangle_normal_by_region = (\<lambda>s t region. unit_normal s t),
      get_largest_dihedral = (\<lambda>s e normals. 0),
      edge_is_feature = (\<lambda>s e normals. False),
      eigen_solver = diagonal_eigen,
      G_EIGENVALUE_RANK_RATIO = 0.03,
      m_sharp_fold_regularization_threshold = pi / 18,
      uninitialised = (zero3, zero3),
      add_triangle_candidates = (\<lambda>s t. []),
      add_point_candidates = (\<lambda>s v. []),
      add_edge_candidates =
        (\<lambda>s e. map (\<lambda>e'. (e, e', 1))
                 (m_vertex_to_edge_map (m_mesh s) ! fst (m_edges (m_mesh s) ! e))),
      any_collision = (\<lambda>s candidates. False),
      check_edge_edge_proximity = shared_endpoint_distance,
      check_point_triangle_proximity = corner_point_distance\<rparr>"

text \<open>The corner tetrahedron: \<open>O = (0,0,0)\<close>, \<open>A = (24,0,0)\<close>, \<open>B = (0,7,0)\<close>,
  \<open>C = (0,0,17)\<close>. The three faces at \<open>O\<close> are pairwise perpendicular, so the
  three edges at \<open>O\<close> have dihedral angle \<open>pi / 2\<close>; face \<open>O B A\<close> has an angle of
  about 16 degrees at \<open>A\<close> (cosine 24/25).\<close>

definition corner_mesh :: NonDestructiveTriMesh where
  "corner_mesh =
     \<lparr>m_tris = [(0, 2, 1), (0, 3, 2), (0, 1, 3), (1, 2, 3)],
      m_edges = [(0, 1), (0, 2), (0, 3), (1, 2), (2, 3), (1, 3)],
      m_vertex_to_triangle_map = [[0, 1, 2], [0, 2, 3], [0, 1, 3], [1, 2, 3]],
      m_vertex_to_edge_map = [[0, 1, 2], [0, 3, 5], [1, 3, 4], [2, 4, 5]],
      m_edge_to_triangle_map = [[0, 2], [0, 1], [1, 2], [0, 3], [1, 3], [2, 3]],
      m_triangle_labels = [(0, 1), (0, 1), (0, 1), (0, 1)]\<rparr>"

definition corner_surf :: SurfTrack where
  "corner_surf =
     \<lparr>m_mesh = corner_mesh,
      pm_positions = [(0, 0, 0), (24, 0, 0), (0, 7, 0), (0, 0, 17)],
      pm_newpositions = [(0, 0, 0), (24, 0, 0), (0, 7, 0), (0, 0, 17)],
      m_aggressive_mode = False,
      m_collision_safety = True,
      m_max_edge_length = 50,
      m_improve_collision_epsilon = 1 / 10000,
      m_min_angle_cosine = min_cos,
      m_max_angle_cosine = max_cos\<rparr>"

definition corner_dihedral :: "nat \<Rightarrow> real" where
  "corner_dihedral e =
     (if e < 3 then pi / 2
      else if e = 3 then arccos (- 168 / 457)
      else if e = 4 then arccos (- 119 / 457)
      else arccos (- 408 / 457))"

definition corner_ext :: externals where
  "corner_ext =
     plain_ext\<lparr>get_largest_dihedral := (\<lambda>s e normals. corner_dihedral e),
               edge_is_feature := (\<lambda>s e normals. True)\<rparr>"

text \<open>A flat fan in the plane \<open>z = 0\<close>: the centre \<open>(1,0,0)\<close>, vertex 0, and the ring
  \<open>(3,0,0)\<close>, \<open>(0,3,0)\<close>, \<open>(-3,0,0)\<close>, \<open>(0,-3,0)\<close>. The ring edges 4 to 7 are
  boundary edges.\<close>

definition fan_mesh :: NonDestructiveTriMesh where
  "fan_mesh =
     \<lparr>m_tris = [(0, 1, 2), (0, 2, 3), (0, 3, 4), (0, 4, 1)],
      m_edges = [(0, 1), (0, 2), (0, 3), (0, 4), (1, 2), (2, 3), (3, 4), (4, 1)],
      m_vertex_to_triangle_map = [[0, 1, 2, 3], [0, 3], [0, 1], [1, 2], [2, 3]],
      m_vertex_to_edge_map = [[0, 1, 2, 3], [0, 4, 7], [1, 4, 5], [2, 5, 6], [3, 6, 7]],
      m_edge_to_triangle_map = [[0, 3], [0, 1], [1, 2], [2, 3], [0], [1], [2], [3]],
      m_triangle_labels = [(0, 1), (0, 1), (0, 1), (0, 1)]\<rparr>"

definition fan_surf :: SurfTrack where
  "fan_surf =
     \<lparr>m_mesh = fan_mesh,
      pm_positions = [(1, 0, 0), (3, 0, 0), (0, 3, 0), (- 3, 0, 0), (0, - 3, 0)],
      pm_newpositions = [(1, 0, 0), (3, 0, 0), (0, 3, 0), (- 3, 0, 0), (0, - 3, 0)],
      m_aggressive_mode = False,
      m_collision_safety = True,
      m_max_edge_length = 50,
      m_improve_collision_epsilon = 1 / 10000,
      m_min_angle_cosine = min_cos,
      m_max_angle_cosine = max_cos\<rparr>"

text \<open>A regular tetrahedron: every face is equilateral, every angle cosine is 1/2.\<close>

definition even_mesh :: NonDestructiveTriMesh where
  "even_mesh =
     \<lparr>m_tris = [(0, 1, 2), (0, 3, 1), (0, 2, 3), (1, 3, 2)],
      m_edges = [(0, 1), (0, 2), (0, 3), (1, 2), (1, 3), (2, 3)],
      m_vertex_to_triangle_map = [[0, 1, 2], [0, 1, 3], [0, 2, 3], [1, 2, 3]],
      m_vertex_to_edge_map = [[0, 1, 2], [0, 3, 4], [1, 3, 5], [2, 4, 5]],
      m_edge_to_triangle_map = [[0, 1], [0, 2], [1, 2], [0, 3], [1, 3], [2, 3]],
      m_triangle_labels = [(0, 1), (0, 1), (0, 1), (0, 1)]\<rparr>"

definition even_surf :: SurfTrack where
  "even_surf =
     \<lparr>m_mesh = even_mesh,
      pm_positions = [(1, 1, 1), (1, - 1, - 1), (- 1, 1, - 1), (- 1, - 1, 1)],
      pm_newpositions = [(1, 1, 1), (1, - 1, - 1), (- 1, 1, - 1), (- 1, - 1, 1)],
      m_aggressive_mode = False,
      m_collision_safety = True,
      m_max_edge_length = 50,
      m_improve_collision_epsilon = 1 / 10000,
      m_min_angle_cosine = min_cos,
      m_max_angle_cosine = max_cos\<rparr>"

text \<open>A closed surface of two triangles on the same three collinear points: every
  triangle has area 0 and an angle of 0 degrees.\<close>

definition needle_mesh :: NonDestructiveTriMesh where
  "needle_mesh =
     \<lparr>m_tris = [(0, 1, 2), (0, 2, 1)],
      m_edges = [(0, 1), (1, 2), (0, 2)],
      m_vertex_to_triangle_map = [[0, 1], [0, 1], [0, 1]],
      m_vertex_to_edge_map = [[0, 2], [0, 1], [1, 2]],
      m_edge_to_triangle_map = [[0, 1], [0, 1], [0, 1]],
      m_triangle_labels = [(0, 1), (0, 1)]\<rparr>"

definition needle_surf :: SurfTrack where
  "needle_surf =
     \<lparr>m_mesh = needle_mesh,
      pm_positions = [(0, 0, 0), (1, 0, 0), (2, 0, 0)],
      pm_newpositions = [(0, 0, 0), (1, 0, 0), (2, 0, 0)],
      m_aggressive_mode = True,
      m_collision_safety = True,
      m_max_edge_length = 50,
      m_improve_collision_epsilon = 1 / 10000,
      m_min_angle_cosine = min_cos,
      m_max_angle_cosine = max_cos\<rparr>"

text \<open>Two vertices and two triangle slots: slot 0 repeats its last two indices, slot 1
  is the placeholder \<open>(0, 0, 0)\<close> of a deleted triangle.\<close>

definition repeat_mesh :: NonDestructiveTriMesh where
  "repeat_mesh =
     \<lparr>m_tris = [(0, 1, 1), (0, 0, 0)],
      m_edges = [(0, 1)],
      m_vertex_to_triangle_map = [[0], [0]],
      m_vertex_to_edge_map = [[0], [0]],
      m_edge_to_triangle_map = [[0]],
      m_triangle_labels = [(0, 1), (0, 1)]\<rparr>"

definition repeat_surf :: SurfTrack where
  "repeat_surf =
     \<lparr>m_mesh = repeat_mesh,
      pm_positions = [(0, 0, 0), (3, 0, 0)],
      pm_newpositions = [(0, 0, 0), (3, 0, 0)],
      m_aggressive_mode = False,
      m_collision_safety = True,
      m_max_edge_length = 50,
      m_improve_collision_epsilon = 1 / 10000,
      m_min_angle_cosine = min_cos,
      m_max_angle_cosine = max_cos\<rparr>"


text \<open>Surfaces on the corner tetrahedron: the mesh and the positions of
  \<open>corner_surf\<close>, any flags.\<close>

definition on_corner :: "SurfTrack \<Rightarrow> bool" where
  "on_corner s = (m_mesh s = corner_mesh \<and> pm_positions s = pm_positions corner_surf
                  \<and> pm_newpositions s = pm_newpositions corner_surf)"

definition hasty_corner_surf :: SurfTrack where
  "hasty_corner_surf = corner_surf\<lparr>m_aggressive_mode := True\<rparr>"

text \<open>The naive displacement of vertex \<open>O\<close> of the corner tetrahedron: the
  area-weighted mean of the centroids of its three faces.\<close>

definition corner_pull :: Vec3d where
  "corner_pull = (4608 / 695, 2009 / 2085, 8959 / 2085)"

text \<open>Vertex \<open>O\<close> constrained along the second axis.\<close>

definition pinned_ext :: externals where
  "pinned_ext =
     corner_ext\<lparr>vertex_is_solid_3 :=
                  (\<lambda>s v. if v = 0 then (False, True, False) else (False, False, False))\<rparr>"

text \<open>The continuous test reports a collision.\<close>

definition colliding_ext :: externals where
  "colliding_ext = corner_ext\<lparr>any_collision := (\<lambda>s candidates. True)\<rparr>"






section \<open>Loops as quantifiers\<close>

lemma has_boundary_edge_iff:
  "has_boundary_edge mesh es = (\<exists>e \<in> set es. length (m_edge_to_triangle_map mesh ! e) = 1)"
  by (induction es) auto

lemma worth_smoothing_iff:
  "worth_smoothing ext s ts =
     (\<exists>i \<in> set ts. any_bad_angles_cos min_cos max_cos (triangle_cosines ext s i))"
  by (induction ts) auto

lemma proximity_loop_iff:
  "proximity_loop ext s cs =
     (\<exists>c \<in> set cs. proximity_is_measured s c
        \<and> static_proximity_distance ext s c < m_improve_collision_epsilon s)"
  by (induction cs) auto

lemma smooth_vertex_at_synthesizer:
  assumes "reaches_synthesizer ext s v"
  shows "null_space_smooth_vertex ext s v c d0 =
           (case masked_displacement ext s v c of
              Inl f \<Rightarrow> Inl f
            | Inr d \<Rightarrow> Inr (stage_and_commit ext s v c d))"
  using assms
  by (simp add: reaches_synthesizer_def null_space_smooth_vertex_def Let_def
        has_boundary_edge_iff worth_smoothing_iff)

section \<open>Facts about the thresholds and the concrete surfaces\<close>

lemma mag_x: "mag (k, 0, 0) = \<bar>k\<bar>"
  by (simp add: mag_def)

lemma mag_y: "mag (0, k, 0) = \<bar>k\<bar>"
  by (simp add: mag_def)

lemma mag_z: "mag (0, 0, k) = \<bar>k\<bar>"
  by (simp add: mag_def)

lemma fan_fields:
  "m_mesh fan_surf = fan_mesh"
  "pm_positions fan_surf = [(1, 0, 0), (3, 0, 0), (0, 3, 0), (- 3, 0, 0), (0, - 3, 0)]"
  "m_tris fan_mesh = [(0, 1, 2), (0, 2, 3), (0, 3, 4), (0, 4, 1)]"
  "m_vertex_to_triangle_map fan_mesh = [[0, 1, 2, 3], [0, 3], [0, 1], [1, 2], [2, 3]]"
  "m_vertex_to_edge_map fan_mesh = [[0, 1, 2, 3], [0, 4, 7], [1, 4, 5], [2, 5, 6], [3, 6, 7]]"
  "m_edge_to_triangle_map fan_mesh = [[0, 3], [0, 1], [1, 2], [2, 3], [0], [1], [2], [3]]"
  by (simp_all add: fan_surf_def fan_mesh_def)

section \<open>Boundary vertices\<close>

text \<open>
  Claim C6. A vertex that is not deleted and has incident triangles, and one of whose
  incident edges has exactly one incident triangle, gets the displacement zero from
  \<^verbatim>\<open>null_space_smooth_vertex\<close>; the surface (so the position of the vertex) and the
  caches come back as they were.
\<close>

theorem boundary_edge_zero_displacement:
  assumes "\<not> vertex_is_deleted ext (m_mesh s) v"
    and "m_vertex_to_triangle_map (m_mesh s) ! v \<noteq> []"
    and "\<exists>e \<in> set (m_vertex_to_edge_map (m_mesh s) ! v).
           length (m_edge_to_triangle_map (m_mesh s) ! e) = 1"
  shows "null_space_smooth_vertex ext s v c d0 = Inr (s, c, zero3)"
  using assms by (simp add: null_space_smooth_vertex_def Let_def has_boundary_edge_iff)

text \<open>Vertex 1 of the fan lies on the boundary edges 4 and 7.\<close>

theorem boundary_edge_zero_displacement_witness:
  "\<not> vertex_is_deleted plain_ext (m_mesh fan_surf) 1
   \<and> m_vertex_to_triangle_map (m_mesh fan_surf) ! 1 \<noteq> []
   \<and> (\<exists>e \<in> set (m_vertex_to_edge_map (m_mesh fan_surf) ! 1).
         length (m_edge_to_triangle_map (m_mesh fan_surf) ! e) = 1)
   \<and> null_space_smooth_vertex plain_ext fan_surf 1 (build_caches plain_ext fan_surf) (1, 2, 3)
       = Inr (fan_surf, build_caches plain_ext fan_surf, zero3)"
proof -
  have h1: "\<not> vertex_is_deleted plain_ext (m_mesh fan_surf) 1"
    by (simp add: plain_ext_def fan_fields)
  have h2: "m_vertex_to_triangle_map (m_mesh fan_surf) ! 1 \<noteq> []"
    by (simp add: fan_fields)
  have h3: "\<exists>e \<in> set (m_vertex_to_edge_map (m_mesh fan_surf) ! 1).
              length (m_edge_to_triangle_map (m_mesh fan_surf) ! e) = 1"
    by (simp add: fan_fields)
  show ?thesis
    using h1 h2 h3 boundary_edge_zero_displacement [OF h1 h2 h3] by blast
qed

section \<open>Facts about the corner tetrahedron\<close>

lemma max_cos_lt_24_25: "max_cos < 24 / 25"
proof (rule ccontr)
  assume "\<not> max_cos < 24 / 25"
  then have c: "24 / 25 \<le> cos (pi / 9)" by (simp add: max_cos_def)
  define x where "x = cos (pi / 9)"
  have "cos (3 * (pi / 9)) = 4 * x ^ 3 - 3 * x"
    unfolding x_def by (rule cos_treble_cos)
  then have eq: "4 * x ^ 3 - 3 * x = 1 / 2" by (simp add: cos_60)
  have x: "24 / 25 \<le> x" using c by (simp add: x_def)
  have "(24 / 25) ^ 2 \<le> x ^ 2" using x by (intro power_mono) auto
  then have "4 * x ^ 2 - 3 \<ge> 4 * (24/25)^2 - 3" by simp
  then have "4 * x ^ 2 - 3 \<ge> 429 / 625" by (simp add: power2_eq_square)
  then have "x * (4 * x ^ 2 - 3) \<ge> (24 / 25) * (429 / 625)"
    using x by (intro mult_mono) auto
  moreover have "x * (4 * x ^ 2 - 3) = 4 * x ^ 3 - 3 * x"
    by (simp add: algebra_simps power2_eq_square power3_eq_cube)
  ultimately show False using eq by simp
qed

lemma mag_le_iff: "0 \<le> k \<Longrightarrow> (mag d \<le> k) = (dot d d \<le> k\<^sup>2)"
  unfolding mag_def by (metis abs_of_nonneg real_sqrt_abs real_sqrt_le_iff)

lemma corner_fields:
  "m_mesh corner_surf = corner_mesh"
  "pm_positions corner_surf = [(0, 0, 0), (24, 0, 0), (0, 7, 0), (0, 0, 17)]"
  "pm_newpositions corner_surf = [(0, 0, 0), (24, 0, 0), (0, 7, 0), (0, 0, 17)]"
  "m_collision_safety corner_surf = True"
  "m_aggressive_mode corner_surf = False"
  "m_max_edge_length corner_surf = 50"
  "m_improve_collision_epsilon corner_surf = 1 / 10000"
  "m_tris corner_mesh = [(0, 2, 1), (0, 3, 2), (0, 1, 3), (1, 2, 3)]"
  "m_edges corner_mesh = [(0, 1), (0, 2), (0, 3), (1, 2), (2, 3), (1, 3)]"
  "m_vertex_to_triangle_map corner_mesh = [[0, 1, 2], [0, 2, 3], [0, 1, 3], [1, 2, 3]]"
  "m_vertex_to_edge_map corner_mesh = [[0, 1, 2], [0, 3, 5], [1, 3, 4], [2, 4, 5]]"
  "m_edge_to_triangle_map corner_mesh = [[0, 2], [0, 1], [1, 2], [0, 3], [1, 3], [2, 3]]"
  by (simp_all add: corner_surf_def corner_mesh_def)

lemma mag_24_7: "mag (24, - 7, 0) = 25" "mag (- 24, 7, 0) = 25"
  by (simp_all add: mag_def real_sqrt_unique)

lemma corner_cosines_0:
  assumes "on_corner s" "triangle_angle_cosines ext = dot_angle_cosines"
  shows "triangle_cosines ext s 0 = (0, 7 / 25, 24 / 25)"
  using assms
  by (simp add: on_corner_def triangle_cosines_def corner_fields get_position_def
      dot_angle_cosines_def unit_vec_def mag_x mag_y mag_24_7)

lemma corner_reaches:
  assumes "on_corner s" "triangle_angle_cosines ext = dot_angle_cosines"
    "vertex_is_deleted ext = (\<lambda>mesh v. m_vertex_to_edge_map mesh ! v = [])"
  shows "reaches_synthesizer ext s 0"
proof -
  have "any_bad_angles_cos min_cos max_cos (triangle_cosines ext s 0)"
    using max_cos_lt_24_25 by (simp add: corner_cosines_0 [OF assms(1,2)] any_bad_angles_cos_def)
  then show ?thesis
    using assms(1,3) by (auto simp add: reaches_synthesizer_def on_corner_def corner_fields)
qed

lemma build_caches_nth:
  assumes "t < length (m_tris (m_mesh s))"
  shows "triangle_areas (build_caches ext s) ! t = fst (cache_entry ext s t)"
    and "triangle_normals (build_caches ext s) ! t = fst (snd (cache_entry ext s t))"
    and "triangle_centroids (build_caches ext s) ! t = snd (snd (cache_entry ext s t))"
  using assms by (simp_all add: build_caches_def Let_def)

lemma corner_areas:
  assumes "on_corner s"
  shows "triangle_areas (build_caches ext s) ! 0 = 84"
    and "triangle_areas (build_caches ext s) ! Suc 0 = 119 / 2"
    and "triangle_areas (build_caches ext s) ! 2 = 204"
  using assms
  by (simp_all add: build_caches_nth on_corner_def corner_fields cache_entry_def get_triangle_def
      get_triangle_area_def get_position_def mag_x mag_y mag_z)

lemma corner_centroids:
  assumes "on_corner s"
  shows "triangle_centroids (build_caches ext s) ! 0 = (8, 7 / 3, 0)"
    and "triangle_centroids (build_caches ext s) ! Suc 0 = (0, 7 / 3, 17 / 3)"
    and "triangle_centroids (build_caches ext s) ! 2 = (8, 0, 17 / 3)"
  using assms
  by (simp_all add: build_caches_nth on_corner_def corner_fields cache_entry_def get_triangle_def
      get_position_def)

lemma corner_naive:
  assumes "on_corner s"
  shows "get_smoothing_displacement_naive s 0 [0, 1, 2] (build_caches ext s)
           = Inr (4608 / 695, 2009 / 2085, 8959 / 2085)"
  using assms
  by (simp add: get_smoothing_displacement_naive_def corner_areas corner_centroids zero3_def
      vdiv_def on_corner_def corner_fields get_position_def Let_def)


lemma corner_masked_aggressive:
  assumes "on_corner s" "m_aggressive_mode s" "vertex_is_solid_3 ext s 0 = (False, False, False)"
  shows "masked_displacement ext s 0 (build_caches ext s)
           = Inr (4608 / 695, 2009 / 2085, 8959 / 2085)"
proof -
  have "m_vertex_to_triangle_map (m_mesh s) ! 0 = [0, 1, 2]"
    using assms(1) by (simp add: on_corner_def corner_fields)
  then show ?thesis
    using assms(2,3) corner_naive [OF assms(1)]
    by (simp add: masked_displacement_def solid_mask_def)
qed

lemma corner_displacement_small:
  "\<not> mag (4608 / 695, 2009 / 2085, 8959 / 2085) > 2 * 50"
  by (simp add: not_less mag_le_iff power2_eq_square)


lemma corner_candidates:
  assumes "m_mesh s = corner_mesh" "add_triangle_candidates ext = (\<lambda>s t. [])"
    "add_point_candidates ext = (\<lambda>s v. [])"
    "add_edge_candidates ext = (\<lambda>s e. map (\<lambda>e'. (e, e', 1))
                 (m_vertex_to_edge_map (m_mesh s) ! fst (m_edges (m_mesh s) ! e)))"
  shows "gather_candidates ext s 0 =
           [(0, 0, 1), (0, 1, 1), (0, 2, 1), (1, 0, 1), (1, 1, 1), (1, 2, 1), (2, 0, 1), (2, 1, 1), (2, 2, 1)]"
  using assms by (simp add: gather_candidates_def corner_fields)

lemma corner_no_measured_pair:
  assumes "m_mesh s = corner_mesh"
  shows "proximity_loop ext s
           [(0, 0, 1), (0, 1, 1), (0, 2, 1), (1, 0, 1), (1, 1, 1), (1, 2, 1), (2, 0, 1), (2, 1, 1), (2, 2, 1)] = False"
  using assms by (simp add: proximity_is_measured_def corner_fields)

lemma staged_fields:
  "m_mesh (staged s v d) = m_mesh s"
  "pm_positions (staged s v d) = pm_positions s"
  "pm_newpositions (staged s v d) = (pm_newpositions s)[v := vadd (get_position s v) d]"
  "m_collision_safety (staged s v d) = m_collision_safety s"
  "m_improve_collision_epsilon (staged s v d) = m_improve_collision_epsilon s"
  by (simp_all add: staged_def set_newposition_def)

lemma stage_and_commit_cases:
  "stage_and_commit ext s v c d =
     (if mag d > 2 * m_max_edge_length s then (s, c, zero3)
      else if m_collision_safety s \<and> smooth_vertex_pseudo_motion_introduces_collision ext (staged s v d) v
      then (s\<lparr>pm_newpositions := (pm_newpositions s)[v := get_position s v]\<rparr>, c, zero3)
      else (committed s v d,
            refresh_caches ext (committed s v d) (m_vertex_to_triangle_map (m_mesh s) ! v) c,
            d))"
  by (simp add: stage_and_commit_def committed_def staged_def Let_def set_newposition_def
      set_position_def get_position_def)

lemma hasty_on_corner: "on_corner hasty_corner_surf"
  by (simp add: on_corner_def hasty_corner_surf_def corner_fields)

lemma corner_on_corner: "on_corner corner_surf"
  by (simp add: on_corner_def corner_fields)

lemma corner_ext_fields:
  "triangle_angle_cosines corner_ext = dot_angle_cosines"
  "vertex_is_deleted corner_ext = (\<lambda>mesh v. m_vertex_to_edge_map mesh ! v = [])"
  "vertex_is_solid_3 corner_ext = (\<lambda>s v. (False, False, False))"
  "add_triangle_candidates corner_ext = (\<lambda>s t. [])"
  "add_point_candidates corner_ext = (\<lambda>s v. [])"
  "add_edge_candidates corner_ext = (\<lambda>s e. map (\<lambda>e'. (e, e', 1))
                 (m_vertex_to_edge_map (m_mesh s) ! fst (m_edges (m_mesh s) ! e)))"
  "any_collision corner_ext = (\<lambda>s candidates. False)"
  "check_edge_edge_proximity corner_ext = shared_endpoint_distance"
  "edge_is_feature corner_ext = (\<lambda>s e normals. True)"
  "get_largest_dihedral corner_ext = (\<lambda>s e normals. corner_dihedral e)"
  "m_sharp_fold_regularization_threshold corner_ext = pi / 18"
  by (simp_all add: corner_ext_def plain_ext_def)

lemma colliding_ext_fields:
  "triangle_angle_cosines colliding_ext = dot_angle_cosines"
  "vertex_is_deleted colliding_ext = (\<lambda>mesh v. m_vertex_to_edge_map mesh ! v = [])"
  "vertex_is_solid_3 colliding_ext = (\<lambda>s v. (False, False, False))"
  "any_collision colliding_ext = (\<lambda>s candidates. True)"
  by (simp_all add: colliding_ext_def corner_ext_def plain_ext_def)

lemma pinned_ext_fields:
  "triangle_angle_cosines pinned_ext = dot_angle_cosines"
  "vertex_is_deleted pinned_ext = (\<lambda>mesh v. m_vertex_to_edge_map mesh ! v = [])"
  "vertex_is_solid_3 pinned_ext =
     (\<lambda>s v. if v = 0 then (False, True, False) else (False, False, False))"
  "add_triangle_candidates pinned_ext = (\<lambda>s t. [])"
  "add_point_candidates pinned_ext = (\<lambda>s v. [])"
  "add_edge_candidates pinned_ext = (\<lambda>s e. map (\<lambda>e'. (e, e', 1))
                 (m_vertex_to_edge_map (m_mesh s) ! fst (m_edges (m_mesh s) ! e)))"
  "any_collision pinned_ext = (\<lambda>s candidates. False)"
  "edge_is_feature pinned_ext = (\<lambda>s e normals. True)"
  "get_largest_dihedral pinned_ext = (\<lambda>s e normals. corner_dihedral e)"
  "m_sharp_fold_regularization_threshold pinned_ext = pi / 18"
  by (simp_all add: pinned_ext_def corner_ext_def plain_ext_def)

section \<open>The cap on the magnitude\<close>

text \<open>
  Claim C5. When the displacement that policy selection and the solidity mask produce
  is longer than twice the maximum edge length of the surface, the vertex gets the
  displacement zero, not a shortened one: nothing is staged or committed, and the
  surface and the caches come back as they were.
\<close>

theorem huge_displacement_discarded:
  assumes "reaches_synthesizer ext s v"
    and "masked_displacement ext s v c = Inr d"
    and "mag d > 2 * m_max_edge_length s"
  shows "null_space_smooth_vertex ext s v c d0 = Inr (s, c, zero3)"
  using assms by (simp add: smooth_vertex_at_synthesizer stage_and_commit_def)

lemma corner_displacement_large:
  "mag (4608 / 695, 2009 / 2085, 8959 / 2085) > 2 * 3"
proof -
  have "\<not> mag (4608 / 695, 2009 / 2085, 8959 / 2085) \<le> 6"
    by (simp add: mag_le_iff power2_eq_square)
  then show ?thesis by simp
qed

text \<open>The claim at vertex \<open>O\<close> of the corner tetrahedron, with maximum edge length
  3: the naive displacement has length about 8.\<close>

theorem huge_displacement_discarded_witness:
  "reaches_synthesizer corner_ext (hasty_corner_surf\<lparr>m_max_edge_length := 3\<rparr>) 0
   \<and> masked_displacement corner_ext (hasty_corner_surf\<lparr>m_max_edge_length := 3\<rparr>) 0
        (build_caches corner_ext (hasty_corner_surf\<lparr>m_max_edge_length := 3\<rparr>)) = Inr corner_pull
   \<and> mag corner_pull > 2 * m_max_edge_length (hasty_corner_surf\<lparr>m_max_edge_length := 3\<rparr>)
   \<and> null_space_smooth_vertex corner_ext (hasty_corner_surf\<lparr>m_max_edge_length := 3\<rparr>) 0
        (build_caches corner_ext (hasty_corner_surf\<lparr>m_max_edge_length := 3\<rparr>)) (1, 2, 3)
       = Inr (hasty_corner_surf\<lparr>m_max_edge_length := 3\<rparr>,
              build_caches corner_ext (hasty_corner_surf\<lparr>m_max_edge_length := 3\<rparr>), zero3)"
proof -
  let ?s = "hasty_corner_surf\<lparr>m_max_edge_length := 3\<rparr>"
  have on: "on_corner ?s"
    by (simp add: on_corner_def hasty_corner_surf_def corner_fields)
  have r: "reaches_synthesizer corner_ext ?s 0"
    by (rule corner_reaches [OF on]) (simp_all add: corner_ext_fields)
  have m: "masked_displacement corner_ext ?s 0 (build_caches corner_ext ?s) = Inr corner_pull"
    unfolding corner_pull_def
    by (rule corner_masked_aggressive [OF on]) (simp_all add: hasty_corner_surf_def corner_ext_fields)
  have big: "mag corner_pull > 2 * m_max_edge_length ?s"
    using corner_displacement_large by (simp add: corner_pull_def)
  show ?thesis
    using r m big huge_displacement_discarded [OF r m big, of "(1, 2, 3)"] by simp
qed

section \<open>Rejection by the collision guard\<close>

text \<open>
  Claim C1, as amended. With collision safety on, when the continuous test reports a
  collision among the gathered candidates, or a candidate that the proximity loop
  measures (neither element degenerate, no shared vertex) has a static distance below
  the collision epsilon, the move is rejected as a whole: the staged position of the
  vertex is set back to its current position, the displacement is zero, and the
  committed positions and the caches are unchanged.
\<close>

theorem rejected_move_is_rolled_back:
  assumes "reaches_synthesizer ext s v"
    and "masked_displacement ext s v c = Inr d"
    and "\<not> mag d > 2 * m_max_edge_length s"
    and "m_collision_safety s"
    and "any_collision ext (staged s v d) (gather_candidates ext (staged s v d) v)
         \<or> (\<exists>cand \<in> set (gather_candidates ext (staged s v d) v).
               proximity_is_measured (staged s v d) cand
               \<and> static_proximity_distance ext (staged s v d) cand < m_improve_collision_epsilon s)"
  shows "null_space_smooth_vertex ext s v c d0 =
           Inr (s\<lparr>pm_newpositions := (pm_newpositions s)[v := get_position s v]\<rparr>, c, zero3)"
proof -
  have "smooth_vertex_pseudo_motion_introduces_collision ext (staged s v d) v"
    using assms(5)
    by (auto simp: smooth_vertex_pseudo_motion_introduces_collision_def Let_def
        proximity_loop_iff staged_fields)
  then show ?thesis
    using assms(1-4) by (simp add: smooth_vertex_at_synthesizer stage_and_commit_cases)
qed

text \<open>The amended claim at vertex \<open>O\<close>, with a continuous test that reports a
  collision.\<close>

theorem rejected_move_is_rolled_back_witness:
  "reaches_synthesizer colliding_ext hasty_corner_surf 0
   \<and> masked_displacement colliding_ext hasty_corner_surf 0
        (build_caches colliding_ext hasty_corner_surf) = Inr corner_pull
   \<and> \<not> mag corner_pull > 2 * m_max_edge_length hasty_corner_surf
   \<and> m_collision_safety hasty_corner_surf
   \<and> any_collision colliding_ext (staged hasty_corner_surf 0 corner_pull)
        (gather_candidates colliding_ext (staged hasty_corner_surf 0 corner_pull) 0)
   \<and> null_space_smooth_vertex colliding_ext hasty_corner_surf 0
        (build_caches colliding_ext hasty_corner_surf) (1, 2, 3)
       = Inr (hasty_corner_surf
                \<lparr>pm_newpositions := (pm_newpositions hasty_corner_surf)[0 := get_position hasty_corner_surf 0]\<rparr>,
              build_caches colliding_ext hasty_corner_surf, zero3)"
proof -
  let ?s = hasty_corner_surf
  let ?c = "build_caches colliding_ext ?s"
  have r: "reaches_synthesizer colliding_ext ?s 0"
    by (rule corner_reaches [OF hasty_on_corner]) (simp_all add: colliding_ext_fields)
  have m: "masked_displacement colliding_ext ?s 0 ?c = Inr corner_pull"
    unfolding corner_pull_def
    by (rule corner_masked_aggressive [OF hasty_on_corner])
       (simp_all add: hasty_corner_surf_def colliding_ext_fields)
  have cap: "\<not> mag corner_pull > 2 * m_max_edge_length ?s"
    using corner_displacement_small by (simp add: hasty_corner_surf_def corner_fields corner_pull_def)
  have safe: "m_collision_safety ?s"
    by (simp add: hasty_corner_surf_def corner_fields)
  have hit: "any_collision colliding_ext (staged ?s 0 corner_pull)
               (gather_candidates colliding_ext (staged ?s 0 corner_pull) 0)
             \<or> (\<exists>cand \<in> set (gather_candidates colliding_ext (staged ?s 0 corner_pull) 0).
                   proximity_is_measured (staged ?s 0 corner_pull) cand
                   \<and> static_proximity_distance colliding_ext (staged ?s 0 corner_pull) cand
                       < m_improve_collision_epsilon ?s)"
    by (simp add: colliding_ext_fields)
  show ?thesis
    using r m cap safe rejected_move_is_rolled_back [OF r m cap safe hit, of "(1, 2, 3)"]
    by (simp add: colliding_ext_fields)
qed

text \<open>
  As the specification states the claim, for any candidate pair, it fails. At vertex \<open>O\<close> of the corner
  tetrahedron in aggressive mode the candidate \<open>(0, 1, 1)\<close>, edge \<open>O A\<close> against
  edge \<open>O B\<close>, has static distance 0, below the epsilon; the two edges share \<open>O\<close>,
  the loop skips the pair, and the move is committed.
\<close>

theorem unmeasured_pair_does_not_reject:
  "reaches_synthesizer corner_ext hasty_corner_surf 0
   \<and> masked_displacement corner_ext hasty_corner_surf 0 (build_caches corner_ext hasty_corner_surf)
       = Inr corner_pull
   \<and> \<not> mag corner_pull > 2 * m_max_edge_length hasty_corner_surf
   \<and> m_collision_safety hasty_corner_surf
   \<and> (0, 1, 1) \<in> set (gather_candidates corner_ext (staged hasty_corner_surf 0 corner_pull) 0)
   \<and> static_proximity_distance corner_ext (staged hasty_corner_surf 0 corner_pull) (0, 1, 1)
       < m_improve_collision_epsilon hasty_corner_surf
   \<and> null_space_smooth_vertex corner_ext hasty_corner_surf 0
         (build_caches corner_ext hasty_corner_surf) zero3
       = Inr (committed hasty_corner_surf 0 corner_pull,
              refresh_caches corner_ext (committed hasty_corner_surf 0 corner_pull) [0, 1, 2]
                (build_caches corner_ext hasty_corner_surf),
              corner_pull)
   \<and> get_position hasty_corner_surf 0 = zero3
   \<and> get_position (committed hasty_corner_surf 0 corner_pull) 0 = corner_pull
   \<and> corner_pull \<noteq> zero3"
proof -
  let ?s = hasty_corner_surf
  let ?c = "build_caches corner_ext ?s"
  have mesh: "m_mesh ?s = corner_mesh" and safe: "m_collision_safety ?s"
    and len: "m_max_edge_length ?s = 50" and eps: "m_improve_collision_epsilon ?s = 1 / 10000"
    and pos: "pm_positions ?s = [(0, 0, 0), (24, 0, 0), (0, 7, 0), (0, 0, 17)]"
    and npos: "pm_newpositions ?s = [(0, 0, 0), (24, 0, 0), (0, 7, 0), (0, 0, 17)]"
    by (simp_all add: hasty_corner_surf_def corner_fields)
  have r: "reaches_synthesizer corner_ext ?s 0"
    by (rule corner_reaches [OF hasty_on_corner]) (simp_all add: corner_ext_fields)
  have m: "masked_displacement corner_ext ?s 0 ?c = Inr corner_pull"
    unfolding corner_pull_def
    by (rule corner_masked_aggressive [OF hasty_on_corner])
       (simp_all add: hasty_corner_surf_def corner_ext_fields)
  have cap: "\<not> mag corner_pull > 2 * m_max_edge_length ?s"
    using corner_displacement_small by (simp add: len corner_pull_def)
  have cands: "gather_candidates corner_ext (staged ?s 0 corner_pull) 0 =
      [(0, 0, 1), (0, 1, 1), (0, 2, 1), (1, 0, 1), (1, 1, 1), (1, 2, 1), (2, 0, 1), (2, 1, 1), (2, 2, 1)]"
    by (rule corner_candidates) (simp_all add: staged_fields mesh corner_ext_fields)
  have dist: "static_proximity_distance corner_ext (staged ?s 0 corner_pull) (0, 1, 1) = 0"
    by (simp add: static_proximity_distance_def staged_fields mesh corner_fields corner_ext_fields
        get_newposition_def shared_endpoint_distance_def)
  have nocoll: "\<not> smooth_vertex_pseudo_motion_introduces_collision corner_ext (staged ?s 0 corner_pull) 0"
  proof -
    have "proximity_loop corner_ext (staged ?s 0 corner_pull)
            (gather_candidates corner_ext (staged ?s 0 corner_pull) 0) = False"
      unfolding cands by (rule corner_no_measured_pair) (simp add: staged_fields mesh)
    then show ?thesis
      by (simp add: smooth_vertex_pseudo_motion_introduces_collision_def corner_ext_fields)
  qed
  have tris: "m_vertex_to_triangle_map (m_mesh ?s) ! 0 = [0, 1, 2]"
    by (simp add: mesh corner_fields)
  have run: "null_space_smooth_vertex corner_ext ?s 0 ?c zero3 =
      Inr (committed ?s 0 corner_pull,
           refresh_caches corner_ext (committed ?s 0 corner_pull) [0, 1, 2] ?c,
           corner_pull)"
    using cap nocoll
    by (simp add: smooth_vertex_at_synthesizer [OF r] m stage_and_commit_cases tris
        del: refresh_caches.simps)
  have start: "get_position ?s 0 = zero3"
    by (simp add: get_position_def pos zero3_def)
  have moved: "get_position (committed ?s 0 corner_pull) 0 = corner_pull"
    by (simp add: committed_def get_position_def set_position_def staged_fields pos corner_pull_def)
  have nz: "corner_pull \<noteq> zero3"
    by (simp add: corner_pull_def zero3_def)
  have member: "(0, 1, 1) \<in> set (gather_candidates corner_ext (staged ?s 0 corner_pull) 0)"
    unfolding cands by simp
  have close: "static_proximity_distance corner_ext (staged ?s 0 corner_pull) (0, 1, 1)
                 < m_improve_collision_epsilon ?s"
    unfolding dist eps by simp
  show ?thesis
    using r m cap safe member close run start moved nz by blast
qed


section \<open>The solidity mask after the policy\<close>

lemma corner_not_folded:
  assumes "m_mesh s = corner_mesh"
    "get_largest_dihedral ext = (\<lambda>s e normals. corner_dihedral e)"
    "m_sharp_fold_regularization_threshold ext = pi / 18"
  shows "\<not> regularize_folded_feature ext s 0 normals"
proof -
  have "\<not> pi - pi / 2 < pi / 18"
    using pi_gt_zero by simp
  then show ?thesis
    unfolding regularize_folded_feature_def assms
    by (simp add: corner_fields corner_dihedral_def)
qed

lemma corner_feature_count:
  assumes "m_mesh s = corner_mesh" "edge_is_feature ext = (\<lambda>s e normals. True)"
  shows "vertex_feature_edge_count ext s 0 normals = 3"
  using assms by (simp add: vertex_feature_edge_count_def corner_fields)

text \<open>
  Claim C3 says that a vertex with three or more feature edges that reaches the
  dihedral-aware policy gets the displacement zero and keeps its position. The policy
  returns zero, but the solidity mask then writes 1 into the second component of a
  vertex that is solid along the second axis. Vertex \<open>O\<close> of the corner tetrahedron
  has three feature edges; constrained along the second axis it is moved from
  \<open>(0, 0, 0)\<close> to \<open>(0, 1, 0)\<close>.
\<close>

theorem pinned_corner_vertex_moves:
  "reaches_synthesizer pinned_ext corner_surf 0
   \<and> \<not> m_aggressive_mode corner_surf
   \<and> \<not> regularize_folded_feature pinned_ext corner_surf 0
          (triangle_normals (build_caches pinned_ext corner_surf))
   \<and> vertex_feature_edge_count pinned_ext corner_surf 0
          (triangle_normals (build_caches pinned_ext corner_surf)) = 3
   \<and> null_space_smooth_vertex pinned_ext corner_surf 0
         (build_caches pinned_ext corner_surf) zero3
       = Inr (committed corner_surf 0 (0, 1, 0),
              refresh_caches pinned_ext (committed corner_surf 0 (0, 1, 0)) [0, 1, 2]
                (build_caches pinned_ext corner_surf),
              (0, 1, 0))
   \<and> get_position corner_surf 0 = (0, 0, 0)
   \<and> get_position (committed corner_surf 0 (0, 1, 0)) 0 = (0, 1, 0)"
proof -
  let ?s = corner_surf
  let ?c = "build_caches pinned_ext ?s"
  let ?d = "(0, 1, 0) :: Vec3d"
  have mesh: "m_mesh ?s = corner_mesh"
    by (simp add: corner_fields)
  have r: "reaches_synthesizer pinned_ext ?s 0"
    by (rule corner_reaches [OF corner_on_corner]) (simp_all add: pinned_ext_fields)
  have nf: "\<not> regularize_folded_feature pinned_ext ?s 0 (triangle_normals ?c)"
    by (rule corner_not_folded) (simp_all add: corner_fields pinned_ext_fields)
  have fc: "vertex_feature_edge_count pinned_ext ?s 0 (triangle_normals ?c) = 3"
    by (rule corner_feature_count) (simp_all add: corner_fields pinned_ext_fields)
  have dih: "get_smoothing_displacement_dihedral pinned_ext ?s 0
               (m_vertex_to_triangle_map (m_mesh ?s) ! 0) ?c = Inr zero3"
    by (simp add: get_smoothing_displacement_dihedral_def fc)
  have m: "masked_displacement pinned_ext ?s 0 ?c = Inr ?d"
    using nf dih
    by (simp add: masked_displacement_def feature_policy_def corner_fields pinned_ext_fields
        solid_mask_def zero3_def)
  have cap: "\<not> mag ?d > 2 * m_max_edge_length ?s"
    by (simp add: mag_y corner_fields)
  have cands: "gather_candidates pinned_ext (staged ?s 0 ?d) 0 =
      [(0, 0, 1), (0, 1, 1), (0, 2, 1), (1, 0, 1), (1, 1, 1), (1, 2, 1), (2, 0, 1), (2, 1, 1), (2, 2, 1)]"
    by (rule corner_candidates) (simp_all add: staged_fields mesh pinned_ext_fields)
  have nocoll: "\<not> smooth_vertex_pseudo_motion_introduces_collision pinned_ext (staged ?s 0 ?d) 0"
  proof -
    have "proximity_loop pinned_ext (staged ?s 0 ?d)
            (gather_candidates pinned_ext (staged ?s 0 ?d) 0) = False"
      unfolding cands by (rule corner_no_measured_pair) (simp add: staged_fields mesh)
    then show ?thesis
      by (simp add: smooth_vertex_pseudo_motion_introduces_collision_def pinned_ext_fields)
  qed
  have tris: "m_vertex_to_triangle_map (m_mesh ?s) ! 0 = [0, 1, 2]"
    by (simp add: corner_fields)
  have safe: "m_collision_safety ?s" and slow: "\<not> m_aggressive_mode ?s"
    by (simp_all add: corner_fields)
  have run: "null_space_smooth_vertex pinned_ext ?s 0 ?c zero3 =
      Inr (committed ?s 0 ?d, refresh_caches pinned_ext (committed ?s 0 ?d) [0, 1, 2] ?c, ?d)"
    using cap nocoll
    by (simp add: smooth_vertex_at_synthesizer [OF r] m stage_and_commit_cases tris
        del: refresh_caches.simps)
  have moved: "get_position (committed ?s 0 ?d) 0 = ?d"
    by (simp add: committed_def get_position_def set_position_def staged_fields corner_fields)
  have start: "get_position ?s 0 = (0, 0, 0)"
    by (simp add: get_position_def corner_fields)
  show ?thesis
    using r slow nf fc run moved start by blast
qed

text \<open>
  Claim C4 says that the mask sets the component of every solid axis to zero. The
  source writes 0, 1 and 2. For vertex \<open>O\<close>, solid along the second axis, the naive
  displacement has second component 2009/2085, and the masked displacement has second
  component 1.
\<close>

theorem solid_axis_gets_one:
  "vertex_is_solid_3 pinned_ext hasty_corner_surf 0 = (False, True, False)
   \<and> get_smoothing_displacement_naive hasty_corner_surf 0
        (m_vertex_to_triangle_map (m_mesh hasty_corner_surf) ! 0)
        (build_caches pinned_ext hasty_corner_surf) = Inr (4608 / 695, 2009 / 2085, 8959 / 2085)
   \<and> masked_displacement pinned_ext hasty_corner_surf 0 (build_caches pinned_ext hasty_corner_surf)
       = Inr (4608 / 695, 1, 8959 / 2085)"
proof -
  have tris: "m_vertex_to_triangle_map (m_mesh hasty_corner_surf) ! 0 = [0, 1, 2]"
    by (simp add: hasty_corner_surf_def corner_fields)
  have agg: "m_aggressive_mode hasty_corner_surf"
    by (simp add: hasty_corner_surf_def)
  show ?thesis
    using agg corner_naive [OF hasty_on_corner, of pinned_ext]
    by (simp add: tris masked_displacement_def solid_mask_def pinned_ext_fields)
qed


section \<open>Surfaces without bad angles\<close>

lemma max_cos_gt_half: "1 / 2 < max_cos"
proof -
  have "cos (pi / 3) < cos (pi / 9)"
    by (rule cos_monotone_0_pi) (use pi_gt_zero in auto)
  then show ?thesis by (simp add: max_cos_def cos_60)
qed

lemma min_cos_lt_zero: "min_cos < 0"
proof -
  have "cos (8 * pi / 9) < cos (pi / 2)"
    by (rule cos_monotone_0_pi) (use pi_gt_zero in auto)
  then show ?thesis by (simp add: min_cos_def)
qed

lemma smooth_vertex_not_worth:
  assumes "\<not> worth_smoothing ext s (m_vertex_to_triangle_map (m_mesh s) ! v)"
  shows "null_space_smooth_vertex ext s v c d0 =
           Inr (s, c, if vertex_is_deleted ext (m_mesh s) v then d0 else zero3)"
  using assms by (simp add: null_space_smooth_vertex_def Let_def)

lemma standard_sweep_idle:
  assumes "\<forall>i \<in> set is. \<not> worth_smoothing ext s (m_vertex_to_triangle_map (m_mesh s) ! i)"
  shows "\<exists>ds' m'. standard_sweep ext is (s, c, ds, m) = Inr (s, c, ds', m')"
  using assms
proof (induction "is" arbitrary: ds m)
  case Nil
  then show ?case by simp
next
  case (Cons i rest)
  then show ?case by (simp add: smooth_vertex_not_worth)
qed

lemma smooth_triangle_vertices_idle:
  assumes "\<forall>v \<in> set vs. \<not> worth_smoothing ext s (m_vertex_to_triangle_map (m_mesh s) ! v)"
  shows "\<exists>ds' m' sa'. smooth_triangle_vertices ext vs (s, c, ds, m, sa) = Inr (s, c, ds', m', sa')"
  using assms
proof (induction vs arbitrary: ds m sa)
  case Nil
  then show ?case by simp
next
  case (Cons v rest)
  then show ?case by (simp add: smooth_vertex_not_worth)
qed

lemma aggressive_sweep_idle:
  assumes "\<forall>i \<in> set is. case m_tris (m_mesh s) ! i of (a, b, cc) \<Rightarrow>
             \<forall>v \<in> {a, b, cc}. \<not> worth_smoothing ext s (m_vertex_to_triangle_map (m_mesh s) ! v)"
  shows "\<exists>ds' m' sa'. aggressive_sweep ext is (s, c, ds, m, sa) = Inr (s, c, ds', m', sa')"
  using assms
proof (induction "is" arbitrary: ds m sa)
  case Nil
  then show ?case by simp
next
  case (Cons i rest)
  obtain a b cc where tri: "m_tris (m_mesh s) ! i = (a, b, cc)"
    by (cases "m_tris (m_mesh s) ! i") auto
  have "\<forall>v \<in> set [a, b, cc]. \<not> worth_smoothing ext s (m_vertex_to_triangle_map (m_mesh s) ! v)"
    using Cons.prems tri by simp
  then obtain ds1 m1 sa1 where
    step: "smooth_triangle_vertices ext [a, b, cc] (s, c, ds, m, sa) = Inr (s, c, ds1, m1, sa1)"
    using smooth_triangle_vertices_idle by blast
  have rest: "\<forall>i \<in> set rest. case m_tris (m_mesh s) ! i of (a, b, cc) \<Rightarrow>
             \<forall>v \<in> {a, b, cc}. \<not> worth_smoothing ext s (m_vertex_to_triangle_map (m_mesh s) ! v)"
    using Cons.prems by simp
  show ?case
    using Cons.IH [OF rest] step tri by (simp del: smooth_triangle_vertices.simps)
qed

lemma fine_vertex_not_worth:
  assumes "indices_in_range s" "every_angle_fine ext s" "v < length (pm_positions s)"
  shows "\<not> worth_smoothing ext s (m_vertex_to_triangle_map (m_mesh s) ! v)"
proof -
  have "m_vertex_to_triangle_map (m_mesh s) ! v \<in> set (m_vertex_to_triangle_map (m_mesh s))"
    using assms(1,3) by (simp add: indices_in_range_def)
  then have "\<forall>t \<in> set (m_vertex_to_triangle_map (m_mesh s) ! v). t < length (m_tris (m_mesh s))"
    using assms(1) by (simp add: indices_in_range_def)
  then show ?thesis
    using assms(2) by (auto simp: worth_smoothing_iff every_angle_fine_def)
qed

lemma fine_pass_is_idle:
  assumes "indices_in_range s" "every_angle_fine ext s"
  shows "null_space_smoothing_pass ext s dt = Inr (s, True)"
proof (cases "m_aggressive_mode s")
  case False
  have "\<forall>i \<in> set [0 ..< length (pm_positions s)].
          \<not> worth_smoothing ext s (m_vertex_to_triangle_map (m_mesh s) ! i)"
    using fine_vertex_not_worth [OF assms] by simp
  from standard_sweep_idle [OF this]
  obtain ds' m' where "standard_sweep ext [0 ..< length (pm_positions s)]
      (s, build_caches ext s, replicate (length (pm_positions s)) zero3, 1 / 10 ^ 30)
      = Inr (s, build_caches ext s, ds', m')"
    by blast
  then show ?thesis
    using False by (simp add: null_space_smoothing_pass_def Let_def)
next
  case True
  have "\<forall>i \<in> set [0 ..< length (m_tris (m_mesh s))]. case m_tris (m_mesh s) ! i of (a, b, cc) \<Rightarrow>
             \<forall>v \<in> {a, b, cc}. \<not> worth_smoothing ext s (m_vertex_to_triangle_map (m_mesh s) ! v)"
  proof
    fix i assume "i \<in> set [0 ..< length (m_tris (m_mesh s))]"
    then have "m_tris (m_mesh s) ! i \<in> set (m_tris (m_mesh s))" by simp
    then have "case m_tris (m_mesh s) ! i of (a, b, c) \<Rightarrow>
              a < length (pm_positions s) \<and> b < length (pm_positions s) \<and> c < length (pm_positions s)"
      using assms(1) by (simp add: indices_in_range_def)
    then show "case m_tris (m_mesh s) ! i of (a, b, cc) \<Rightarrow>
             \<forall>v \<in> {a, b, cc}. \<not> worth_smoothing ext s (m_vertex_to_triangle_map (m_mesh s) ! v)"
      using fine_vertex_not_worth [OF assms] by (auto split: prod.splits)
  qed
  from aggressive_sweep_idle [OF this]
  obtain ds' m' sa' where "aggressive_sweep ext [0 ..< length (m_tris (m_mesh s))]
      (s, build_caches ext s, replicate (length (pm_positions s)) zero3, 1 / 10 ^ 30,
       replicate (length (pm_positions s)) False)
      = Inr (s, build_caches ext s, ds', m', sa')"
    by blast
  then show ?thesis
    using True by (simp add: null_space_smoothing_pass_def Let_def)
qed

text \<open>
  Claim C7. A vertex all of whose incident triangles have their three angle cosines
  within \<open>[cos 160\<degree>, cos 20\<degree>]\<close> leaves \<^verbatim>\<open>null_space_smooth_vertex\<close> early, with
  displacement zero and the surface and the caches as they were (a deleted vertex is
  left before its displacement is written: the pass hands it in as zero). So a pass
  over a surface whose indices are in range and whose triangles all have fine angles,
  in standard or in aggressive mode, returns the surface it was given.
\<close>

theorem fine_angles_leave_surface_alone:
  "((\<forall>i \<in> set (m_vertex_to_triangle_map (m_mesh s) ! v).
        \<not> any_bad_angles_cos min_cos max_cos (triangle_cosines ext s i))
     \<and> (vertex_is_deleted ext (m_mesh s) v \<longrightarrow> d0 = zero3)
     \<longrightarrow> null_space_smooth_vertex ext s v c d0 = Inr (s, c, zero3))
   \<and> (indices_in_range s \<and> every_angle_fine ext s
        \<longrightarrow> null_space_smoothing_pass ext s dt = Inr (s, True))"
  by (auto simp: smooth_vertex_not_worth worth_smoothing_iff fine_pass_is_idle)

lemma dot_unit_vec: "dot (unit_vec u) (unit_vec w) = dot u w / (mag u * mag w)"
  by (cases u, cases w) (simp add: unit_vec_def add_divide_distrib)

lemma even_fields:
  "m_mesh even_surf = even_mesh"
  "pm_positions even_surf = [(1, 1, 1), (1, - 1, - 1), (- 1, 1, - 1), (- 1, - 1, 1)]"
  "m_aggressive_mode even_surf = False"
  "m_tris even_mesh = [(0, 1, 2), (0, 3, 1), (0, 2, 3), (1, 3, 2)]"
  "m_vertex_to_triangle_map even_mesh = [[0, 1, 2], [0, 1, 3], [0, 2, 3], [1, 2, 3]]"
  by (simp_all add: even_surf_def even_mesh_def)

lemma even_cosines:
  assumes "i < 4"
  shows "triangle_cosines plain_ext even_surf i = (1 / 2, 1 / 2, 1 / 2)"
proof -
  have "i = 0 \<or> i = 1 \<or> i = 2 \<or> i = 3" using assms by auto
  then show ?thesis
    by (auto simp add: triangle_cosines_def even_fields get_position_def plain_ext_def
      dot_angle_cosines_def dot_unit_vec mag_def)
qed

lemma even_angles_fine: "every_angle_fine plain_ext even_surf"
  using max_cos_gt_half min_cos_lt_zero
  by (simp add: every_angle_fine_def even_fields even_cosines any_bad_angles_cos_def)

lemma even_in_range: "indices_in_range even_surf"
  by (simp add: indices_in_range_def even_fields)


text \<open>The claim on the regular tetrahedron, for vertex 0 and for the pass.\<close>

theorem fine_angles_leave_surface_alone_witness:
  "\<not> (\<exists>i \<in> set (m_vertex_to_triangle_map (m_mesh even_surf) ! 0).
          any_bad_angles_cos min_cos max_cos (triangle_cosines plain_ext even_surf i))
   \<and> \<not> vertex_is_deleted plain_ext (m_mesh even_surf) 0
   \<and> null_space_smooth_vertex plain_ext even_surf 0 (build_caches plain_ext even_surf) (1, 2, 3)
       = Inr (even_surf, build_caches plain_ext even_surf, zero3)
   \<and> indices_in_range even_surf
   \<and> every_angle_fine plain_ext even_surf
   \<and> null_space_smoothing_pass plain_ext even_surf 1 = Inr (even_surf, True)"
proof -
  have h1: "\<forall>i \<in> set (m_vertex_to_triangle_map (m_mesh even_surf) ! 0).
        \<not> any_bad_angles_cos min_cos max_cos (triangle_cosines plain_ext even_surf i)"
    using max_cos_gt_half min_cos_lt_zero
    by (simp add: even_fields even_cosines any_bad_angles_cos_def)
  have h2: "\<not> vertex_is_deleted plain_ext (m_mesh even_surf) 0"
    by (simp add: plain_ext_def even_surf_def even_mesh_def)
  show ?thesis
    using h1 h2 even_in_range even_angles_fine
      fine_angles_leave_surface_alone [where s = even_surf and v = 0 and ext = plain_ext
        and ?d0.0 = "(1, 2, 3)" and c = "build_caches plain_ext even_surf" and dt = 1]
    by simp
qed


section \<open>Placeholders of deleted triangles\<close>

lemma cache_entry_placeholder:
  assumes "first_two_equal (get_triangle s t)"
  shows "cache_entry ext s t = (0, zero3, zero3)"
  using assms by (auto simp: cache_entry_def first_two_equal_def split: prod.splits)

lemma nth_update_if:
  "xs[x := a] ! t = (if t = x \<and> t < length xs then a else xs ! t)"
  by (cases "x < length xs") (auto simp: nth_list_update list_update_beyond)

lemma refresh_caches_areas_nth:
  "triangle_areas (refresh_caches ext s ts c) ! t =
     (if t \<in> set ts \<and> t < length (triangle_areas c) then fst (cache_entry ext s t)
      else triangle_areas c ! t)"
proof (induction ts arbitrary: c)
  case Nil
  then show ?case by simp
next
  case (Cons x rest)
  obtain a n m where e: "cache_entry ext s x = (a, n, m)"
    by (cases "cache_entry ext s x") auto
  show ?case
    by (auto simp add: e Cons.IH nth_update_if)
qed

lemma refresh_caches_normals_nth:
  "triangle_normals (refresh_caches ext s ts c) ! t =
     (if t \<in> set ts \<and> t < length (triangle_normals c) then fst (snd (cache_entry ext s t))
      else triangle_normals c ! t)"
proof (induction ts arbitrary: c)
  case Nil
  then show ?case by simp
next
  case (Cons x rest)
  obtain a n m where e: "cache_entry ext s x = (a, n, m)"
    by (cases "cache_entry ext s x") auto
  show ?case
    by (auto simp add: e Cons.IH nth_update_if)
qed

lemma refresh_caches_centroids_nth:
  "triangle_centroids (refresh_caches ext s ts c) ! t =
     (if t \<in> set ts \<and> t < length (triangle_centroids c) then snd (snd (cache_entry ext s t))
      else triangle_centroids c ! t)"
proof (induction ts arbitrary: c)
  case Nil
  then show ?case by simp
next
  case (Cons x rest)
  obtain a n m where e: "cache_entry ext s x = (a, n, m)"
    by (cases "cache_entry ext s x") auto
  show ?case
    by (auto simp add: e Cons.IH nth_update_if)
qed

lemma smul_zero: "smul 0 a = zero3"
  by (cases a) (simp add: zero3_def)

lemma vadd_zero: "vadd a zero3 = a"
  by (cases a) (simp add: zero3_def)

lemma outer_zero_weight: "outer a 0 b = mat_zero"
  by (cases a) (simp add: mat_zero_def smul_zero)

lemma mat_add_zero: "mat_add A mat_zero = A"
  by (cases A) (simp add: mat_zero_def vadd_zero)

lemma centroid_offset_sum_skip:
  assumes "\<forall>i \<in> set ts. P i \<longrightarrow> triangle_areas c ! i = 0"
  shows "centroid_offset_sum s v c ts acc = centroid_offset_sum s v c (filter (\<lambda>i. \<not> P i) ts) acc"
  using assms
proof (induction ts arbitrary: acc)
  case Nil
  then show ?case by simp
next
  case (Cons i rest)
  obtain t a where acc: "acc = (t, a)" by (cases acc) auto
  show ?case
    using Cons by (simp add: acc Let_def smul_zero vadd_zero)
qed

lemma quadric_skip_aux:
  assumes "\<forall>i \<in> set ts. P i \<longrightarrow> triangle_areas c ! i = 0"
  shows "foldl (\<lambda>A i. mat_add A (outer (triangle_normals c ! i) (triangle_areas c ! i) (triangle_normals c ! i))) A0 ts
       = foldl (\<lambda>A i. mat_add A (outer (triangle_normals c ! i) (triangle_areas c ! i) (triangle_normals c ! i))) A0
           (filter (\<lambda>i. \<not> P i) ts)"
  using assms by (induction ts arbitrary: A0) (simp_all add: outer_zero_weight mat_add_zero)

lemma jiao_b_skip_aux:
  assumes "\<forall>i \<in> set ts. P i \<longrightarrow> triangle_areas c ! i = 0"
  shows "foldl (\<lambda>b i. vadd b (smul (triangle_areas c ! i) (triangle_normals c ! i))) b0 ts
       = foldl (\<lambda>b i. vadd b (smul (triangle_areas c ! i) (triangle_normals c ! i))) b0
           (filter (\<lambda>i. \<not> P i) ts)"
  using assms by (induction ts arbitrary: b0) (simp_all add: smul_zero vadd_zero)

text \<open>
  Claim C2, as amended. For a triangle whose first two vertex indices are equal (the
  placeholder of a deleted triangle), the cached area, normal and centroid are zero,
  both in the caches that \<^verbatim>\<open>null_space_smoothing_pass\<close> builds and after the refresh
  that follows a committed move; and where the placeholders have cached area zero,
  the area-weighted centroid sum with the sum of areas, the quadric and the weighted
  normal sum over a triangle list are those over the list without the placeholders.
\<close>

theorem placeholder_triangle_is_zero:
  assumes "first_two_equal (get_triangle s t)"
  shows "(t < length (m_tris (m_mesh s)) \<longrightarrow>
            triangle_areas (build_caches ext s) ! t = 0
            \<and> triangle_normals (build_caches ext s) ! t = zero3
            \<and> triangle_centroids (build_caches ext s) ! t = zero3)
       \<and> (t \<in> set ts \<and> t < length (triangle_areas c) \<and> t < length (triangle_normals c)
            \<and> t < length (triangle_centroids c) \<longrightarrow>
            triangle_areas (refresh_caches ext s ts c) ! t = 0
            \<and> triangle_normals (refresh_caches ext s ts c) ! t = zero3
            \<and> triangle_centroids (refresh_caches ext s ts c) ! t = zero3)
       \<and> ((\<forall>i \<in> set ts. first_two_equal (get_triangle s i) \<longrightarrow> triangle_areas c ! i = 0) \<longrightarrow>
            centroid_offset_sum s v c ts acc
              = centroid_offset_sum s v c (filter (\<lambda>i. \<not> first_two_equal (get_triangle s i)) ts) acc
            \<and> quadric c ts = quadric c (filter (\<lambda>i. \<not> first_two_equal (get_triangle s i)) ts)
            \<and> jiao_b c ts = jiao_b c (filter (\<lambda>i. \<not> first_two_equal (get_triangle s i)) ts))"
proof (intro conjI impI)
  assume "t < length (m_tris (m_mesh s))"
  then show "triangle_areas (build_caches ext s) ! t = 0"
    "triangle_normals (build_caches ext s) ! t = zero3"
    "triangle_centroids (build_caches ext s) ! t = zero3"
    by (simp_all add: build_caches_nth cache_entry_placeholder [OF assms])
next
  assume "t \<in> set ts \<and> t < length (triangle_areas c) \<and> t < length (triangle_normals c)
            \<and> t < length (triangle_centroids c)"
  then show "triangle_areas (refresh_caches ext s ts c) ! t = 0"
    "triangle_normals (refresh_caches ext s ts c) ! t = zero3"
    "triangle_centroids (refresh_caches ext s ts c) ! t = zero3"
    by (simp_all add: refresh_caches_areas_nth refresh_caches_normals_nth
        refresh_caches_centroids_nth cache_entry_placeholder [OF assms])
next
  assume z: "\<forall>i \<in> set ts. first_two_equal (get_triangle s i) \<longrightarrow> triangle_areas c ! i = 0"
  show "centroid_offset_sum s v c ts acc
          = centroid_offset_sum s v c (filter (\<lambda>i. \<not> first_two_equal (get_triangle s i)) ts) acc"
    by (rule centroid_offset_sum_skip [OF z])
  show "quadric c ts = quadric c (filter (\<lambda>i. \<not> first_two_equal (get_triangle s i)) ts)"
    unfolding quadric_def by (rule quadric_skip_aux [OF z])
  show "jiao_b c ts = jiao_b c (filter (\<lambda>i. \<not> first_two_equal (get_triangle s i)) ts)"
    unfolding jiao_b_def by (rule jiao_b_skip_aux [OF z])
qed

lemma repeat_fields:
  "m_mesh repeat_surf = repeat_mesh"
  "pm_positions repeat_surf = [(0, 0, 0), (3, 0, 0)]"
  "m_tris repeat_mesh = [(0, 1, 1), (0, 0, 0)]"
  by (simp_all add: repeat_surf_def repeat_mesh_def)

text \<open>
  As the specification states the claim, for any two equal indices, it fails: the source tests
  \<^verbatim>\<open>tri[0] == tri[1]\<close> only. The triangle \<open>(0, 1, 1)\<close> on the points
  \<open>(0,0,0)\<close> and \<open>(3,0,0)\<close> gets the cached centroid \<open>(2,0,0)\<close>.
\<close>

theorem repeated_index_keeps_centroid:
  "has_repeated_index (get_triangle repeat_surf 0)
   \<and> 0 < length (m_tris (m_mesh repeat_surf))
   \<and> triangle_centroids (build_caches plain_ext repeat_surf) ! 0 = (2, 0, 0)
   \<and> (2, 0, 0) \<noteq> zero3"
  by (simp add: build_caches_nth repeat_fields get_triangle_def has_repeated_index_def
      cache_entry_def get_position_def zero3_def)

text \<open>The amended claim for slot 1 of the same surface, the placeholder
  \<open>(0, 0, 0)\<close>.\<close>

theorem placeholder_triangle_is_zero_witness:
  "first_two_equal (get_triangle repeat_surf 1)
   \<and> 1 < length (m_tris (m_mesh repeat_surf))
   \<and> triangle_areas (build_caches plain_ext repeat_surf) ! 1 = 0
   \<and> triangle_normals (build_caches plain_ext repeat_surf) ! 1 = zero3
   \<and> triangle_centroids (build_caches plain_ext repeat_surf) ! 1 = zero3
   \<and> 1 \<in> set [0, 1 :: nat]
   \<and> triangle_areas (refresh_caches plain_ext repeat_surf [0, 1] \<lparr>triangle_areas = [5, 5], triangle_normals = [(1, 0, 0), (1, 0, 0)], triangle_centroids = [(1, 1, 1), (1, 1, 1)]\<rparr>) ! 1 = 0
   \<and> triangle_normals (refresh_caches plain_ext repeat_surf [0, 1] \<lparr>triangle_areas = [5, 5], triangle_normals = [(1, 0, 0), (1, 0, 0)], triangle_centroids = [(1, 1, 1), (1, 1, 1)]\<rparr>) ! 1 = zero3
   \<and> triangle_centroids (refresh_caches plain_ext repeat_surf [0, 1] \<lparr>triangle_areas = [5, 5], triangle_normals = [(1, 0, 0), (1, 0, 0)], triangle_centroids = [(1, 1, 1), (1, 1, 1)]\<rparr>) ! 1 = zero3
   \<and> centroid_offset_sum repeat_surf 0 (build_caches plain_ext repeat_surf) [0, 1] (zero3, 0)
       = centroid_offset_sum repeat_surf 0 (build_caches plain_ext repeat_surf) [0] (zero3, 0)"
proof -
  let ?c = "\<lparr>triangle_areas = [5, 5], triangle_normals = [(1, 0, 0), (1, 0, 0)],
             triangle_centroids = [(1, 1, 1), (1, 1, 1)]\<rparr>"
  let ?b = "build_caches plain_ext repeat_surf"
  have h: "first_two_equal (get_triangle repeat_surf 1)"
    by (simp add: first_two_equal_def get_triangle_def repeat_fields)
  have len: "1 < length (m_tris (m_mesh repeat_surf))"
    by (simp add: repeat_fields)
  have z: "\<forall>i \<in> set [0, 1]. first_two_equal (get_triangle repeat_surf i) \<longrightarrow> triangle_areas ?b ! i = 0"
    by (simp add: first_two_equal_def get_triangle_def repeat_fields build_caches_nth cache_entry_def)
  have f: "filter (\<lambda>i. \<not> first_two_equal (get_triangle repeat_surf i)) [0, 1] = [0]"
    by (simp add: first_two_equal_def get_triangle_def repeat_fields)
  note t1 = placeholder_triangle_is_zero [OF h, of plain_ext "[0, 1]" ?c 0 "(zero3, 0)"]
  note t2 = placeholder_triangle_is_zero [OF h, of plain_ext "[0, 1]" ?b 0 "(zero3, 0)"]
  have built: "triangle_areas ?b ! 1 = 0 \<and> triangle_normals ?b ! 1 = zero3
               \<and> triangle_centroids ?b ! 1 = zero3"
    using t2 len by blast
  have inside: "1 \<in> set [0, 1 :: nat] \<and> 1 < length (triangle_areas ?c)
                \<and> 1 < length (triangle_normals ?c) \<and> 1 < length (triangle_centroids ?c)"
    by simp
  have refreshed: "triangle_areas (refresh_caches plain_ext repeat_surf [0, 1] ?c) ! 1 = 0
                   \<and> triangle_normals (refresh_caches plain_ext repeat_surf [0, 1] ?c) ! 1 = zero3
                   \<and> triangle_centroids (refresh_caches plain_ext repeat_surf [0, 1] ?c) ! 1 = zero3"
    using t1 inside by blast
  have "centroid_offset_sum repeat_surf 0 ?b [0, 1] (zero3, 0)
          = centroid_offset_sum repeat_surf 0 ?b
              (filter (\<lambda>i. \<not> first_two_equal (get_triangle repeat_surf i)) [0, 1]) (zero3, 0)"
    using t2 z by blast
  then have sums: "centroid_offset_sum repeat_surf 0 ?b [0, 1] (zero3, 0)
                     = centroid_offset_sum repeat_surf 0 ?b [0] (zero3, 0)"
    unfolding f .
  show ?thesis
    using h len built inside refreshed sums by blast
qed


section \<open>The flat branch\<close>

lemma centroid_offset_sum_areas:
  "snd (centroid_offset_sum s v c ts (t, a)) = a + sum_of_areas c ts"
  by (induction ts arbitrary: t a) (simp_all add: sum_of_areas_def Let_def)

lemma normalize_vec_unit:
  assumes "normalize_vec a = Inr n"
  shows "dot n n = 1"
proof -
  obtain a0 a1 a2 where a: "a = (a0, a1, a2)" by (cases a) auto
  have nz: "mag a \<noteq> 0" and n: "n = smul (1 / mag a) a"
    using assms by (auto simp: normalize_vec_def vdiv_def split: if_splits)
  have nonneg: "0 \<le> dot a a" by (simp add: a)
  have sq: "mag a * mag a = dot a a"
    using nonneg by (simp add: mag_def)
  define k where "k = 1 / mag a"
  have "dot n n = k * k * dot a a"
    unfolding n k_def [symmetric] by (simp add: a algebra_simps)
  also have "\<dots> = dot a a / (mag a * mag a)" by (simp add: k_def)
  also have "\<dots> = 1" using nz by (simp add: sq [symmetric])
  finally show ?thesis .
qed

lemma remove_normal_component:
  assumes "dot n n = 1"
  shows "dot (vsub t (smul (dot n t) n)) n = 0"
proof -
  obtain n0 n1 n2 where n: "n = (n0, n1, n2)" by (cases n) auto
  obtain t0 t1 t2 where t: "t = (t0, t1, t2)" by (cases t) auto
  have "dot (vsub t (smul (dot n t) n)) n = dot t n - dot n t * dot n n"
    by (simp add: n t algebra_simps)
  also have "\<dots> = 0"
    using assms by (simp add: n t algebra_simps)
  finally show ?thesis .
qed

text \<open>
  Claim C8. In the flat branch of the dihedral-aware policy (no feature edge), when
  the eigensolver succeeds, the combined normal is finite (it could be normalized) and
  the sum of the cached areas is not zero, the returned displacement is orthogonal to
  the normalized combined normal: their dot product is exactly zero in exact
  arithmetic. Rounding is outside the model.
\<close>

theorem flat_displacement_is_tangential:
  assumes "vertex_feature_edge_count ext s v (triangle_normals c) = 0"
    and "fst (eigen_solver ext (quadric c triangles))"
    and "combined_normal ext c triangles = Inr n"
    and "sum_of_areas c triangles \<noteq> 0"
  shows "\<exists>d. get_smoothing_displacement_dihedral ext s v triangles c = Inr d
             \<and> dot d n = 0 \<and> dot n n = 1"
proof -
  obtain ok eigenvalues eigenvectors
    where es: "eigen_solver ext (quadric c triangles) = (ok, eigenvalues, eigenvectors)"
    by (cases "eigen_solver ext (quadric c triangles)") auto
  have ok: ok using assms(2) es by simp
  have jn: "jiao_normal ext c triangles eigenvalues eigenvectors (eig_max_of eigenvalues) = Inr n"
    using assms(3) es by (simp add: combined_normal_def)
  obtain t a where cs: "centroid_offset_sum s v c triangles (zero3, 0) = (t, a)"
    by (cases "centroid_offset_sum s v c triangles (zero3, 0)") auto
  have "a = sum_of_areas c triangles"
    using centroid_offset_sum_areas [of s v c triangles zero3 0] cs by simp
  then have a: "a \<noteq> 0" using assms(4) by simp
  have unit: "dot n n = 1"
    using jn by (auto simp: jiao_normal_def normalize_vec_unit split: sum.splits)
  have "get_smoothing_displacement_dihedral ext s v triangles c
          = Inr (vsub (smul (1 / a) t) (smul (dot n (smul (1 / a) t)) n))"
    using assms(1) ok a
    by (simp add: get_smoothing_displacement_dihedral_def es Let_def flat_displacement_def jn cs
        vdiv_def)
  then show ?thesis
    using unit remove_normal_component [OF unit] by simp
qed

lemma fan_cache_entries:
  "cache_entry plain_ext fan_surf 0 = (3, (0, 0, 1), (4 / 3, 1, 0))"
  "cache_entry plain_ext fan_surf (Suc 0) = (6, (0, 0, 1), (- 2 / 3, 1, 0))"
  "cache_entry plain_ext fan_surf 2 = (6, (0, 0, 1), (- 2 / 3, - 1, 0))"
  "cache_entry plain_ext fan_surf 3 = (3, (0, 0, 1), (4 / 3, - 1, 0))"
  by (simp_all add: cache_entry_def get_triangle_def fan_fields get_triangle_area_def
      get_position_def plain_ext_def unit_normal_def unit_vec_def mag_z)

lemma fan_caches:
  "build_caches plain_ext fan_surf =
     \<lparr>triangle_areas = [3, 6, 6, 3],
      triangle_normals = [(0, 0, 1), (0, 0, 1), (0, 0, 1), (0, 0, 1)],
      triangle_centroids = [(4 / 3, 1, 0), (- 2 / 3, 1, 0), (- 2 / 3, - 1, 0), (4 / 3, - 1, 0)]\<rparr>"
proof -
  have "[0 ..< length (m_tris (m_mesh fan_surf))] = [0, Suc 0, 2, 3]"
    by (simp add: fan_fields upt_rec)
  then show ?thesis
    by (simp add: build_caches_def Let_def fan_cache_entries)
qed

lemma fan_quadric:
  "quadric (build_caches plain_ext fan_surf) [0, 1, 2, 3] = ((0, 0, 0), (0, 0, 0), (0, 0, 18))"
  by (simp add: quadric_def fan_caches mat_zero_def zero3_def)

lemma fan_eigen:
  "eigen_solver plain_ext ((0, 0, 0), (0, 0, 0), (0, 0, 18)) =
     (True, (0, 0, 18), ((1, 0, 0), (0, 1, 0), (0, 0, 1)))"
  by (simp add: plain_ext_def diagonal_eigen_def)

lemma fan_normal:
  "combined_normal plain_ext (build_caches plain_ext fan_surf) [0, 1, 2, 3] = Inr (0, 0, 1)"
proof -
  have b: "jiao_b (build_caches plain_ext fan_surf) [0, Suc 0, 2, 3] = (0, 0, 18)"
    by (simp add: jiao_b_def fan_caches zero3_def)
  have r: "G_EIGENVALUE_RANK_RATIO plain_ext = 3 / 100"
    by (simp add: plain_ext_def)
  show ?thesis
    unfolding combined_normal_def fan_quadric fan_eigen
    by (simp add: jiao_normal_def eig_max_of_def b r vdiv_def zero3_def normalize_vec_def mag_z)
qed

text \<open>The claim at the centre of the flat fan: the combined normal is
  \<open>(0, 0, 1)\<close>.\<close>

theorem flat_displacement_is_tangential_witness:
  "vertex_feature_edge_count plain_ext fan_surf 0
      (triangle_normals (build_caches plain_ext fan_surf)) = 0
   \<and> fst (eigen_solver plain_ext (quadric (build_caches plain_ext fan_surf) [0, 1, 2, 3]))
   \<and> combined_normal plain_ext (build_caches plain_ext fan_surf) [0, 1, 2, 3] = Inr (0, 0, 1)
   \<and> sum_of_areas (build_caches plain_ext fan_surf) [0, 1, 2, 3] \<noteq> 0
   \<and> (\<exists>d. get_smoothing_displacement_dihedral plain_ext fan_surf 0 [0, 1, 2, 3]
              (build_caches plain_ext fan_surf) = Inr d
           \<and> dot d (0, 0, 1) = 0 \<and> dot (0, 0, 1) (0, 0, 1 :: real) = 1)"
proof -
  let ?c = "build_caches plain_ext fan_surf"
  have h1: "vertex_feature_edge_count plain_ext fan_surf 0 (triangle_normals ?c) = 0"
    by (simp add: vertex_feature_edge_count_def plain_ext_def)
  have h2: "fst (eigen_solver plain_ext (quadric ?c [0, 1, 2, 3]))"
    unfolding fan_quadric fan_eigen by simp
  have h4: "sum_of_areas ?c [0, 1, 2, 3] \<noteq> 0"
    by (simp add: sum_of_areas_def fan_caches)
  show ?thesis
    using h1 h2 fan_normal h4 flat_displacement_is_tangential [OF h1 h2 fan_normal h4]
    by blast
qed


section \<open>The ridge branch\<close>




































section \<open>The division by the area sum\<close>

lemma max_cos_lt_one: "max_cos < 1"
proof -
  have "cos (pi / 9) < cos 0"
    by (rule cos_monotone_0_pi) (use pi_gt_zero in auto)
  then show ?thesis by (simp add: max_cos_def)
qed

lemma mag_nonneg: "0 \<le> mag a"
  by (simp add: mag_def) (cases a, simp)

lemma cache_entry_area_nonneg: "0 \<le> fst (cache_entry ext s t)"
  by (auto simp: cache_entry_def get_triangle_area_def mag_nonneg split: prod.splits)

lemma build_caches_areas_nonneg: "\<forall>a \<in> set (triangle_areas (build_caches ext s)). 0 \<le> a"
  by (auto simp: build_caches_def Let_def cache_entry_area_nonneg)

lemma build_caches_length:
  "length (triangle_areas (build_caches ext s)) = length (m_tris (m_mesh s))"
  by (simp add: build_caches_def Let_def)

lemma refresh_caches_areas_nonneg:
  assumes "\<forall>a \<in> set (triangle_areas c). 0 \<le> a"
  shows "\<forall>a \<in> set (triangle_areas (refresh_caches ext s ts c)). 0 \<le> a"
  using assms
proof (induction ts arbitrary: c)
  case Nil
  then show ?case by simp
next
  case (Cons t rest)
  obtain a n m where e: "cache_entry ext s t = (a, n, m)"
    by (cases "cache_entry ext s t") auto
  have "0 \<le> a" using cache_entry_area_nonneg [of ext s t] by (simp add: e)
  then have "\<forall>x \<in> set ((triangle_areas c)[t := a]). 0 \<le> x"
    using Cons.prems set_update_subset_insert [of "triangle_areas c" t a] by auto
  then show ?case
    using Cons.IH [of "\<lparr>triangle_areas = (triangle_areas c)[t := a],
                        triangle_normals = (triangle_normals c)[t := n],
                        triangle_centroids = (triangle_centroids c)[t := m]\<rparr>"]
    by (simp add: e)
qed

lemma sum_of_areas_nonneg:
  assumes "\<forall>a \<in> set (triangle_areas c). 0 \<le> a"
    and "\<forall>i \<in> set triangles. i < length (triangle_areas c)"
  shows "0 \<le> sum_of_areas c triangles"
  unfolding sum_of_areas_def using assms by (intro sum_list_nonneg) auto

lemma sum_of_areas_pos_iff:
  assumes "\<forall>a \<in> set (triangle_areas c). 0 \<le> a"
    and "\<forall>i \<in> set triangles. i < length (triangle_areas c)"
  shows "(0 < sum_of_areas c triangles) = (\<exists>i \<in> set triangles. 0 < triangle_areas c ! i)"
  using assms(2)
proof (induction triangles)
  case Nil
  then show ?case by (simp add: sum_of_areas_def)
next
  case (Cons i rest)
  have a: "0 \<le> triangle_areas c ! i" using Cons.prems assms(1) by simp
  have r: "0 \<le> sum_of_areas c rest"
    using Cons.prems by (intro sum_of_areas_nonneg [OF assms(1)]) simp
  have ih: "(0 < sum_of_areas c rest) = (\<exists>i \<in> set rest. 0 < triangle_areas c ! i)"
    using Cons by simp
  have "sum_of_areas c (i # rest) = triangle_areas c ! i + sum_of_areas c rest"
    by (simp add: sum_of_areas_def)
  then have "(0 < sum_of_areas c (i # rest)) = (0 < triangle_areas c ! i \<or> 0 < sum_of_areas c rest)"
    using a r by linarith
  then show ?case using ih by simp
qed

lemma naive_by_area_sum:
  "get_smoothing_displacement_naive s v triangles c =
     vdiv (fst (centroid_offset_sum s v c triangles (zero3, 0))) (sum_of_areas c triangles)"
proof -
  obtain t a where cs: "centroid_offset_sum s v c triangles (zero3, 0) = (t, a)"
    by (cases "centroid_offset_sum s v c triangles (zero3, 0)") auto
  have "a = sum_of_areas c triangles"
    using centroid_offset_sum_areas [of s v c triangles zero3 0] cs by simp
  then show ?thesis
    by (simp add: get_smoothing_displacement_naive_def cs)
qed

lemma classic_by_area_sum:
  "\<exists>t. get_smoothing_displacement ext s v triangles c = vdiv t (sum_of_areas c triangles)"
proof -
  obtain ok evs vecs where es: "eigen_solver ext (quadric c triangles) = (ok, evs, vecs)"
    by (cases "eigen_solver ext (quadric c triangles)") auto
  obtain t a where cs: "centroid_offset_sum s v c triangles (zero3, 0) = (t, a)"
    by (cases "centroid_offset_sum s v c triangles (zero3, 0)") auto
  have a: "a = sum_of_areas c triangles"
    using centroid_offset_sum_areas [of s v c triangles zero3 0] cs by simp
  define T2 where "T2 = map (nth3 vecs)
     (filter (\<lambda>i. nth3 evs i
                   < G_EIGENVALUE_RANK_RATIO ext * max (nth3 evs 0) (max (nth3 evs 1) (nth3 evs 2)))
        [0, 1, 2])"
  have "get_smoothing_displacement ext s v triangles c
          = vdiv (mat_vec (null_space_projection T2) t) (sum_of_areas c triangles)"
    unfolding get_smoothing_displacement_def es cs Let_def T2_def a by simp
  then show ?thesis by blast
qed

lemma dihedral_zero_area_sum:
  assumes "sum_of_areas c triangles = 0"
    and "vertex_feature_edge_count ext s v (triangle_normals c) < 3"
  shows "\<exists>f. get_smoothing_displacement_dihedral ext s v triangles c = Inl f"
proof -
  obtain ok evs vecs where es: "eigen_solver ext (quadric c triangles) = (ok, evs, vecs)"
    by (cases "eigen_solver ext (quadric c triangles)") auto
  obtain t a where cs: "centroid_offset_sum s v c triangles (zero3, 0) = (t, a)"
    by (cases "centroid_offset_sum s v c triangles (zero3, 0)") auto
  have "a = sum_of_areas c triangles"
    using centroid_offset_sum_areas [of s v c triangles zero3 0] cs by simp
  then have a: "a = 0" using assms(1) by simp
  show ?thesis
    using assms(2)
    by (simp add: get_smoothing_displacement_dihedral_def es Let_def flat_displacement_def
        ridge_displacement_def cs a vdiv_def split: sum.splits)
qed

text \<open>
  Claim C10, as amended. The three synthesizers divide by the sum of the cached areas
  of their triangle set, with no guard. With cached areas that are not negative (the
  caches of the pass are so, when built and when refreshed) and a triangle set within
  the caches, the sum is not negative, and it is positive exactly when a triangle of
  the set has a positive cached area. When the sum is not zero the naive and the
  classic synthesizer return a finite displacement; when it is zero, they return a
  non-finite one, and the dihedral one does not return a displacement unless the
  vertex has three or more feature edges.
\<close>

theorem area_sum_decides_division:
  assumes "\<forall>a \<in> set (triangle_areas c). 0 \<le> a"
    and "\<forall>i \<in> set triangles. i < length (triangle_areas c)"
  shows "0 \<le> sum_of_areas c triangles
       \<and> (0 < sum_of_areas c triangles) = (\<exists>i \<in> set triangles. 0 < triangle_areas c ! i)
       \<and> (sum_of_areas c triangles \<noteq> 0 \<longrightarrow>
            (\<exists>d. get_smoothing_displacement_naive s v triangles c = Inr d)
            \<and> (\<exists>d. get_smoothing_displacement ext s v triangles c = Inr d))
       \<and> (sum_of_areas c triangles = 0 \<longrightarrow>
            get_smoothing_displacement_naive s v triangles c = Inl NonFinite
            \<and> get_smoothing_displacement ext s v triangles c = Inl NonFinite
            \<and> (vertex_feature_edge_count ext s v (triangle_normals c) < 3 \<longrightarrow>
                 (\<exists>f. get_smoothing_displacement_dihedral ext s v triangles c = Inl f)))"
proof -
  obtain t where t: "get_smoothing_displacement ext s v triangles c = vdiv t (sum_of_areas c triangles)"
    using classic_by_area_sum by blast
  have finite: "sum_of_areas c triangles \<noteq> 0 \<longrightarrow>
            (\<exists>d. get_smoothing_displacement_naive s v triangles c = Inr d)
            \<and> (\<exists>d. get_smoothing_displacement ext s v triangles c = Inr d)"
    by (simp add: naive_by_area_sum t vdiv_def del: split_paired_Ex)
  have not_finite: "sum_of_areas c triangles = 0 \<longrightarrow>
            get_smoothing_displacement_naive s v triangles c = Inl NonFinite
            \<and> get_smoothing_displacement ext s v triangles c = Inl NonFinite
            \<and> (vertex_feature_edge_count ext s v (triangle_normals c) < 3 \<longrightarrow>
                 (\<exists>f. get_smoothing_displacement_dihedral ext s v triangles c = Inl f))"
    using dihedral_zero_area_sum [of c triangles ext s v]
    by (simp add: naive_by_area_sum t vdiv_def)
  show ?thesis
    using sum_of_areas_nonneg [OF assms] sum_of_areas_pos_iff [OF assms] finite not_finite
    by blast
qed

lemma needle_fields:
  "m_mesh needle_surf = needle_mesh"
  "pm_positions needle_surf = [(0, 0, 0), (1, 0, 0), (2, 0, 0)]"
  "m_aggressive_mode needle_surf = True"
  "m_tris needle_mesh = [(0, 1, 2), (0, 2, 1)]"
  "m_vertex_to_triangle_map needle_mesh = [[0, 1], [0, 1], [0, 1]]"
  "m_vertex_to_edge_map needle_mesh = [[0, 2], [0, 1], [1, 2]]"
  "m_edge_to_triangle_map needle_mesh = [[0, 1], [0, 1], [0, 1]]"
  by (simp_all add: needle_surf_def needle_mesh_def)

lemma needle_reaches: "reaches_synthesizer plain_ext needle_surf 0"
proof -
  have "triangle_cosines plain_ext needle_surf 0 = (1, - 1, 1)"
    by (simp add: triangle_cosines_def needle_fields get_position_def plain_ext_def
        dot_angle_cosines_def unit_vec_def mag_x)
  then have "any_bad_angles_cos min_cos max_cos (triangle_cosines plain_ext needle_surf 0)"
    using max_cos_lt_one by (simp add: any_bad_angles_cos_def)
  then show ?thesis
    by (auto simp add: reaches_synthesizer_def needle_fields plain_ext_def)
qed

lemma needle_areas:
  "triangle_areas (build_caches plain_ext needle_surf) = [0, 0]"
proof -
  have "[0 ..< length (m_tris (m_mesh needle_surf))] = [0, Suc 0]"
    by (simp add: needle_fields upt_rec)
  then show ?thesis
    by (simp add: build_caches_def Let_def cache_entry_def get_triangle_def needle_fields
        get_triangle_area_def get_position_def mag_x)
qed

text \<open>
  As the specification states the claim, it fails: the eligibility checks do not make
  the sum positive.
  Vertex 0 of the closed surface on three collinear points passes all four checks
  (its first triangle has an angle of 0 degrees), both its triangles have area 0, and
  the naive synthesizer divides by 0.
\<close>

theorem eligible_vertex_with_zero_area_sum:
  "reaches_synthesizer plain_ext needle_surf 0
   \<and> sum_of_areas (build_caches plain_ext needle_surf)
        (m_vertex_to_triangle_map (m_mesh needle_surf) ! 0) = 0
   \<and> get_smoothing_displacement_naive needle_surf 0
        (m_vertex_to_triangle_map (m_mesh needle_surf) ! 0)
        (build_caches plain_ext needle_surf) = Inl NonFinite
   \<and> null_space_smooth_vertex plain_ext needle_surf 0
        (build_caches plain_ext needle_surf) zero3 = Inl NonFinite"
proof -
  let ?c = "build_caches plain_ext needle_surf"
  have tris: "m_vertex_to_triangle_map (m_mesh needle_surf) ! 0 = [0, 1]"
    by (simp add: needle_fields)
  have sum: "sum_of_areas ?c [0, 1] = 0"
    by (simp add: sum_of_areas_def needle_areas)
  have naive: "get_smoothing_displacement_naive needle_surf 0 [0, 1] ?c = Inl NonFinite"
    unfolding naive_by_area_sum sum by (simp add: vdiv_def)
  have "masked_displacement plain_ext needle_surf 0 ?c = Inl NonFinite"
    by (simp add: masked_displacement_def tris naive needle_fields del: One_nat_def)
  then have run: "null_space_smooth_vertex plain_ext needle_surf 0 ?c zero3 = Inl NonFinite"
    by (simp add: smooth_vertex_at_synthesizer [OF needle_reaches])
  show ?thesis
    unfolding tris using needle_reaches sum naive run by blast
qed

text \<open>The amended claim at vertex \<open>O\<close> of the corner tetrahedron: the area sum
  is 695/2.\<close>

theorem area_sum_decides_division_witness:
  "\<not> (\<exists>a \<in> set (triangle_areas (build_caches corner_ext corner_surf)). a < 0)
   \<and> \<not> (\<exists>i \<in> set [0, 1, 2]. length (triangle_areas (build_caches corner_ext corner_surf)) \<le> i)
   \<and> sum_of_areas (build_caches corner_ext corner_surf) [0, 1, 2] = 695 / 2
   \<and> (\<exists>d. get_smoothing_displacement_naive corner_surf 0 [0, 1, 2]
              (build_caches corner_ext corner_surf) = Inr d)
   \<and> (\<exists>d. get_smoothing_displacement corner_ext corner_surf 0 [0, 1, 2]
              (build_caches corner_ext corner_surf) = Inr d)"
proof -
  let ?c = "build_caches corner_ext corner_surf"
  have h1: "\<forall>a \<in> set (triangle_areas ?c). 0 \<le> a"
    by (rule build_caches_areas_nonneg)
  have h2: "\<forall>i \<in> set [0, 1, 2]. i < length (triangle_areas ?c)"
    by (simp add: build_caches_length corner_fields)
  have sum: "sum_of_areas ?c [0, 1, 2] = 695 / 2"
    by (simp add: sum_of_areas_def corner_areas [OF corner_on_corner])
  have nz: "sum_of_areas ?c [0, 1, 2] \<noteq> 0"
    unfolding sum by simp
  note t = area_sum_decides_division [OF h1 h2, of corner_surf 0 corner_ext]
  have "(\<exists>d. get_smoothing_displacement_naive corner_surf 0 [0, 1, 2] ?c = Inr d)
        \<and> (\<exists>d. get_smoothing_displacement corner_ext corner_surf 0 [0, 1, 2] ?c = Inr d)"
    using t nz by blast
  then show ?thesis
    using h1 h2 sum by (auto simp: not_less not_le)
qed


end
